theory Spec2Isabelle
  imports Main
begin

section \<open>Python values\<close>

text \<open>
  The program (\<^verbatim>\<open>src/multiclou.py\<close>) is dynamically typed: what it reads from the
  environment, from a JSON response body and from its own dictionaries are Python values.
  \<open>pyval\<close> is the universe of values that \<^verbatim>\<open>os.getenv\<close> and \<^verbatim>\<open>response.json()\<close> can
  produce: \<^verbatim>\<open>None\<close>, booleans, integers, strings, lists, and dictionaries with string
  keys. A dictionary is an association list in which the first binding of a key is the
  one that counts. A string is the UTF-8 encoding of the Python text, byte by byte; JSON
  numbers with a fraction are left out (the program branches on the truth value of a
  number only).
\<close>

datatype pyval =
    PNone
  | PBool bool
  | PInt int
  | PStr string
  | PList "pyval list"
  | PDict "(string \<times> pyval) list"

datatype py_error =
    KeyError | TypeError | AttributeError | IndexError | ValueError | UnicodeEncodeError
  | RequestException | OtherError

text \<open>Truth value of a Python object, as \<^verbatim>\<open>if x:\<close> and \<^verbatim>\<open>not x\<close> test it.\<close>

fun truthy :: "pyval \<Rightarrow> bool" where
  "truthy PNone = False"
| "truthy (PBool b) = b"
| "truthy (PInt i) = (i \<noteq> 0)"
| "truthy (PStr s) = (s \<noteq> [])"
| "truthy (PList xs) = (xs \<noteq> [])"
| "truthy (PDict d) = (d \<noteq> [])"

text \<open>\<^verbatim>\<open>x.get(key, default)\<close>: only a dictionary has the method.\<close>

fun py_get :: "pyval \<Rightarrow> string \<Rightarrow> pyval \<Rightarrow> py_error + pyval" where
  "py_get (PDict d) k dflt = Inr (case map_of d k of Some v \<Rightarrow> v | None \<Rightarrow> dflt)"
| "py_get _ k dflt = Inl AttributeError"

text \<open>\<^verbatim>\<open>x[key]\<close> with a string key: a missing key raises KeyError, and a value that
  is not a dictionary raises TypeError (a string or a list wants integer indices, the
  others are not subscriptable).\<close>

fun py_item :: "pyval \<Rightarrow> string \<Rightarrow> py_error + pyval" where
  "py_item (PDict d) k = (case map_of d k of Some v \<Rightarrow> Inr v | None \<Rightarrow> Inl KeyError)"
| "py_item _ k = Inl TypeError"

text \<open>\<^verbatim>\<open>x[0]\<close>: the first element of a list, the first character of a string; a
  dictionary of a JSON body has no key \<^verbatim>\<open>0\<close>.\<close>

fun py_first :: "pyval \<Rightarrow> py_error + pyval" where
  "py_first (PList (x # xs)) = Inr x"
| "py_first (PList []) = Inl IndexError"
| "py_first (PStr (c # cs)) = Inr (PStr [c])"
| "py_first (PStr []) = Inl IndexError"
| "py_first (PDict d) = Inl KeyError"
| "py_first _ = Inl TypeError"

text \<open>\<^verbatim>\<open>for x in v\<close>: the elements of a list, the characters of a string, the keys
  of a dictionary; the other values are not iterable.\<close>

fun py_iter :: "pyval \<Rightarrow> py_error + pyval list" where
  "py_iter (PList xs) = Inr xs"
| "py_iter (PStr s) = Inr (map (\<lambda>c. PStr [c]) s)"
| "py_iter (PDict d) = Inr (map PStr (remdups (map fst d)))"
| "py_iter _ = Inl TypeError"

subsection \<open>Strings\<close>

text \<open>\<^verbatim>\<open>needle in haystack\<close> for two strings: the needle starts at some position.\<close>

fun starts_with :: "string \<Rightarrow> string \<Rightarrow> bool" where
  "starts_with [] s = True"
| "starts_with (p # ps) [] = False"
| "starts_with (p # ps) (c # cs) = (p = c \<and> starts_with ps cs)"

fun str_contains :: "string \<Rightarrow> string \<Rightarrow> bool" where
  "str_contains needle [] = (needle = [])"
| "str_contains needle (c # cs) = (starts_with needle (c # cs) \<or> str_contains needle cs)"

subsection \<open>Dictionaries built by the program\<close>

text \<open>
  \<^verbatim>\<open>user_permissions\<close> is a dictionary whose keys are whatever \<^verbatim>\<open>user_name\<close> holds.
  Python compares keys with \<^verbatim>\<open>==\<close> (so \<^verbatim>\<open>True\<close> and \<^verbatim>\<open>1\<close> are one key), keeps
  the keys in insertion order, and an assignment to a key already there replaces the
  value in place. A list or a dictionary is not hashable and cannot be a key.
\<close>

type_synonym pydict = "(pyval \<times> pyval) list"

fun key_norm :: "pyval \<Rightarrow> pyval" where
  "key_norm (PBool b) = PInt (if b then 1 else 0)"
| "key_norm v = v"

definition py_eq :: "pyval \<Rightarrow> pyval \<Rightarrow> bool" where
  "py_eq a b = (key_norm a = key_norm b)"

fun hashable :: "pyval \<Rightarrow> bool" where
  "hashable (PList xs) = False"
| "hashable (PDict d) = False"
| "hashable _ = True"

fun dict_set :: "pydict \<Rightarrow> pyval \<Rightarrow> pyval \<Rightarrow> pydict" where
  "dict_set [] k v = [(k, v)]"
| "dict_set ((k', v') # d) k v =
     (if py_eq k' k then (k', v) # d else (k', v') # dict_set d k v)"

fun dict_get :: "pydict \<Rightarrow> pyval \<Rightarrow> pyval option" where
  "dict_get [] k = None"
| "dict_get ((k', v') # d) k = (if py_eq k' k then Some v' else dict_get d k)"

text \<open>\<^verbatim>\<open>needle in v\<close> for a string needle: substring of a string, element of a
  list, key of a dictionary; any other right operand raises TypeError.\<close>

fun py_in :: "string \<Rightarrow> pyval \<Rightarrow> py_error + bool" where
  "py_in needle (PStr s) = Inr (str_contains needle s)"
| "py_in needle (PList xs) = Inr (PStr needle \<in> set xs)"
| "py_in needle (PDict d) = Inr (needle \<in> set (map fst d))"
| "py_in needle _ = Inl TypeError"

section \<open>The world outside the program\<close>

text \<open>
  An f-string is kept as its parts, literal text and interpolated values, in order. A
  request is what the code hands to \<^verbatim>\<open>requests\<close>: method, URL, headers, query
  parameters and JSON body. Every outside effect of a run is an event of its trace: an
  HTTP request, or a \<^verbatim>\<open>git clone\<close>. The \<^verbatim>\<open>print\<close> calls are left out: the model
  describes the runs in which every line that is printed can be written.
\<close>

datatype fpart = Lit string | Fmt pyval

type_synonym fstring = "fpart list"

datatype http_method = GET | POST | PATCH | PUT

record request =
  meth :: http_method
  url :: fstring
  headers :: "(string \<times> fstring) list"
  params :: "(string \<times> pyval) list"
  json_body :: "pyval option"

datatype event = Http request | GitClone string string

text \<open>
  What \<^verbatim>\<open>requests\<close> does with a request: it raises an exception, or it returns a
  response with a status code and a body. The exception is a \<^verbatim>\<open>RequestException\<close> (the
  class \<^verbatim>\<open>requests.exceptions.RequestException\<close> with its subclasses: a connection
  error, a timeout, a URL without scheme), or of another class (a \<^verbatim>\<open>UnicodeEncodeError\<close>
  for a header value outside latin-1, say). What \<^verbatim>\<open>response.json()\<close> does with the
  body: it returns the parsed value (\<open>Json\<close>), or it raises: \<^verbatim>\<open>JSONDecodeError\<close>, which
  is a \<^verbatim>\<open>RequestException\<close> of the library, or an exception of another class (a
  \<^verbatim>\<open>ValueError\<close> for an integer of more digits than the interpreter converts, say).
  What \<^verbatim>\<open>subprocess.run(..., check=True)\<close> does with the clone: exit code zero,
  \<^verbatim>\<open>CalledProcessError\<close> for a non-zero exit code, or another exception (no \<^verbatim>\<open>git\<close>
  executable, say).
\<close>

datatype body = Json pyval | Unreadable py_error

datatype outcome = Raised py_error | Replied nat body

datatype clone_outcome = CloneOk | CloneNonZero | CloneRaises

text \<open>
  The world answers a request knowing every event before it. The environment variables
  are part of it (after \<^verbatim>\<open>load_dotenv()\<close>), and so are the library functions on text
  that the program calls: \<^verbatim>\<open>str.upper()\<close>, the case mapping of the interpreter's
  Unicode tables, and the two functions on notebook content that nothing here depends on,
  \<^verbatim>\<open>base64.b64decode(s).decode("utf-8")\<close> (\<open>None\<close> when either step raises) and
  \<^verbatim>\<open>base64.b64encode(s.encode("utf-8")).decode("utf-8")\<close>.
\<close>

record world =
  getenv :: "string \<Rightarrow> string option"
  clone :: "string \<Rightarrow> string \<Rightarrow> clone_outcome"
  respond :: "event list \<Rightarrow> request \<Rightarrow> outcome"
  str_upper :: "string \<Rightarrow> string"
  b64decode_utf8 :: "string \<Rightarrow> string option"
  b64encode_utf8 :: "string \<Rightarrow> string"

text \<open>
  A computation takes the trace so far and returns its result, or the exception that
  nothing caught, with the trace extended.
\<close>

type_synonym 'a io = "event list \<Rightarrow> (py_error + 'a) \<times> event list"

definition ret :: "'a \<Rightarrow> 'a io" where
  "ret x tr = (Inr x, tr)"

definition lift :: "py_error + 'a \<Rightarrow> 'a io" where
  "lift r tr = (r, tr)"

definition thn :: "'a io \<Rightarrow> ('a \<Rightarrow> 'b io) \<Rightarrow> 'b io" where
  "thn m f tr = (case m tr of (Inl e, tr') \<Rightarrow> (Inl e, tr') | (Inr x, tr') \<Rightarrow> f x tr')"

fun for_each :: "('a \<Rightarrow> unit io) \<Rightarrow> 'a list \<Rightarrow> unit io" where
  "for_each body [] tr = (Inr (), tr)"
| "for_each body (x # xs) tr =
     (case body x tr of (Inl e, tr') \<Rightarrow> (Inl e, tr') | (Inr u, tr') \<Rightarrow> for_each body xs tr')"

text \<open>
  \<^verbatim>\<open>requests.get/post/patch/put\<close> followed by \<^verbatim>\<open>response.raise_for_status()\<close>, inside
  a \<^verbatim>\<open>try\<close> whose only handler is \<^verbatim>\<open>except RequestException\<close>: the request is
  recorded, and the handler is entered (\<open>Caught\<close>: the call raised a
  \<^verbatim>\<open>RequestException\<close>, or \<^verbatim>\<open>raise_for_status\<close> raised its \<^verbatim>\<open>HTTPError\<close> for a status
  code from 400 to 599), or an exception of another class leaves the \<^verbatim>\<open>try\<close>
  (\<open>Uncaught\<close>), or the response passes with its body.
\<close>

datatype reply = Caught | Uncaught py_error | Passed body

definition raises_for_status :: "nat \<Rightarrow> bool" where
  "raises_for_status status = (400 \<le> status \<and> status < 600)"

definition send :: "world \<Rightarrow> request \<Rightarrow> event list \<Rightarrow> reply \<times> event list" where
  "send w rq tr =
     ((case respond w tr rq of
         Raised e \<Rightarrow> if e = RequestException then Caught else Uncaught e
       | Replied status b \<Rightarrow> if raises_for_status status then Caught else Passed b),
      tr @ [Http rq])"

section \<open>Configuration\<close>

definition of_env :: "string option \<Rightarrow> pyval" where
  "of_env v = (case v of None \<Rightarrow> PNone | Some s \<Rightarrow> PStr s)"

record config =
  cfg_url :: pyval
  cfg_token :: pyval

definition WORKSPACE_CONFIG :: "world \<Rightarrow> (string \<times> config) list" where
  "WORKSPACE_CONFIG w =
     [(''AWS'', \<lparr>cfg_url = of_env (getenv w ''AWS_WORKSPACE_URL''),
                 cfg_token = of_env (getenv w ''AWS_ACCESS_TOKEN'')\<rparr>),
      (''AZURE'', \<lparr>cfg_url = of_env (getenv w ''AZURE_WORKSPACE_URL''),
                   cfg_token = of_env (getenv w ''AZURE_ACCESS_TOKEN'')\<rparr>),
      (''GCP'', \<lparr>cfg_url = of_env (getenv w ''GCP_WORKSPACE_URL''),
                 cfg_token = of_env (getenv w ''GCP_ACCESS_TOKEN'')\<rparr>)]"

definition NOTEBOOK_DIR :: "world \<Rightarrow> pyval" where
  "NOTEBOOK_DIR w = of_env (getenv w ''NOTEBOOK_DIR'')"

definition get_headers :: "pyval \<Rightarrow> (string \<times> fstring) list" where
  "get_headers token =
     [(''Authorization'', [Lit ''Bearer '', Fmt token]),
      (''Content-Type'', [Lit ''application/json''])]"

definition get_workspace_config :: "world \<Rightarrow> string \<Rightarrow> config option" where
  "get_workspace_config w cloud_provider = map_of (WORKSPACE_CONFIG w) (str_upper w cloud_provider)"

section \<open>Git seeding\<close>

text \<open>
  \<^verbatim>\<open>subprocess.run\<close> takes strings: another value among its arguments (\<^verbatim>\<open>NOTEBOOK_DIR\<close>
  unset, say) is a TypeError before any process starts. Only \<^verbatim>\<open>CalledProcessError\<close>
  is caught.
\<close>

definition pull_notebooks_from_git :: "world \<Rightarrow> pyval \<Rightarrow> pyval \<Rightarrow> bool io" where
  "pull_notebooks_from_git w git_url target_dir tr =
     (case (git_url, target_dir) of
        (PStr u, PStr d) \<Rightarrow>
          ((case clone w u d of
              CloneOk \<Rightarrow> Inr True
            | CloneNonZero \<Rightarrow> Inr False
            | CloneRaises \<Rightarrow> Inl OtherError),
           tr @ [GitClone u d])
      | _ \<Rightarrow> (Inl TypeError, tr))"

section \<open>Workspace API client\<close>

definition list_request :: "pyval \<Rightarrow> pyval \<Rightarrow> pyval \<Rightarrow> request" where
  "list_request workspace_url access_token path =
     \<lparr>meth = GET, url = [Fmt workspace_url, Lit ''/api/2.0/workspace/list''],
      headers = get_headers access_token, params = [(''path'', path)], json_body = None\<rparr>"

text \<open>\<^verbatim>\<open>response.json()\<close> is inside the \<^verbatim>\<open>try\<close> too: the handler is entered for a
  \<^verbatim>\<open>RequestException\<close> and for no other exception.\<close>

definition list_notebooks :: "world \<Rightarrow> pyval \<Rightarrow> pyval \<Rightarrow> pyval \<Rightarrow> pyval io" where
  "list_notebooks w workspace_url access_token path tr =
     (case send w (list_request workspace_url access_token path) tr of
        (Caught, tr') \<Rightarrow> (Inr (PList []), tr')
      | (Uncaught e, tr') \<Rightarrow> (Inl e, tr')
      | (Passed (Unreadable e), tr') \<Rightarrow>
          if e = RequestException then (Inr (PList []), tr') else (Inl e, tr')
      | (Passed (Json j), tr') \<Rightarrow> (py_get j ''objects'' (PList []), tr'))"

definition export_request :: "pyval \<Rightarrow> pyval \<Rightarrow> pyval \<Rightarrow> request" where
  "export_request workspace_url access_token path =
     \<lparr>meth = GET, url = [Fmt workspace_url, Lit ''/api/2.0/workspace/export''],
      headers = get_headers access_token,
      params = [(''path'', path), (''format'', PStr ''SOURCE'')], json_body = None\<rparr>"

definition export_notebook :: "world \<Rightarrow> pyval \<Rightarrow> pyval \<Rightarrow> pyval \<Rightarrow> string option io" where
  "export_notebook w workspace_url access_token path tr =
     (case send w (export_request workspace_url access_token path) tr of
        (Caught, tr') \<Rightarrow> (Inr None, tr')
      | (Uncaught e, tr') \<Rightarrow> (Inl e, tr')
      | (Passed (Unreadable e), tr') \<Rightarrow>
          if e = RequestException then (Inr None, tr') else (Inl e, tr')
      | (Passed (Json j), tr') \<Rightarrow>
          (case py_item j ''content'' of
             Inl e \<Rightarrow> (Inl e, tr')
           | Inr (PStr s) \<Rightarrow>
               (case b64decode_utf8 w s of
                  None \<Rightarrow> (Inl ValueError, tr')
                | Some text \<Rightarrow> (Inr (Some text), tr'))
           | Inr _ \<Rightarrow> (Inl TypeError, tr')))"

definition import_request :: "world \<Rightarrow> pyval \<Rightarrow> pyval \<Rightarrow> string \<Rightarrow> pyval \<Rightarrow> string \<Rightarrow> request" where
  "import_request w workspace_url access_token content path language =
     \<lparr>meth = POST, url = [Fmt workspace_url, Lit ''/api/2.0/workspace/import''],
      headers = get_headers access_token, params = [],
      json_body = Some (PDict
        [(''path'', path), (''format'', PStr ''SOURCE''), (''language'', PStr language),
         (''content'', PStr (b64encode_utf8 w content)), (''overwrite'', PBool True)])\<rparr>"

definition import_notebook :: "world \<Rightarrow> pyval \<Rightarrow> pyval \<Rightarrow> string \<Rightarrow> pyval \<Rightarrow> string \<Rightarrow> unit io" where
  "import_notebook w workspace_url access_token content path language tr =
     (case send w (import_request w workspace_url access_token content path language) tr of
        (Caught, tr') \<Rightarrow> (Inr (), tr')
      | (Uncaught e, tr') \<Rightarrow> (Inl e, tr')
      | (Passed b, tr') \<Rightarrow> (Inr (), tr'))"

definition status_request :: "pyval \<Rightarrow> pyval \<Rightarrow> pyval \<Rightarrow> request" where
  "status_request workspace_url access_token path =
     \<lparr>meth = GET, url = [Fmt workspace_url, Lit ''/api/2.0/workspace/get-status''],
      headers = get_headers access_token, params = [(''path'', path)], json_body = None\<rparr>"

definition get_object_status :: "world \<Rightarrow> pyval \<Rightarrow> pyval \<Rightarrow> pyval \<Rightarrow> pyval io" where
  "get_object_status w workspace_url access_token path tr =
     (case send w (status_request workspace_url access_token path) tr of
        (Caught, tr') \<Rightarrow> (Inr PNone, tr')
      | (Uncaught e, tr') \<Rightarrow> (Inl e, tr')
      | (Passed (Unreadable e), tr') \<Rightarrow>
          if e = RequestException then (Inr PNone, tr') else (Inl e, tr')
      | (Passed (Json j), tr') \<Rightarrow> (Inr j, tr'))"

text \<open>The routing on \<^verbatim>\<open>object_type\<close>, written twice in the source (lines 113-119 and
  154-160): the permissions endpoint of a notebook or of a directory, none for another
  type.\<close>

definition api_permissions :: "pyval \<Rightarrow> pyval \<Rightarrow> pyval \<Rightarrow> fstring option" where
  "api_permissions workspace_url object_type object_id =
     (if object_type = PStr ''NOTEBOOK''
      then Some [Fmt workspace_url, Lit ''/api/2.0/permissions/notebooks/'', Fmt object_id]
      else if object_type = PStr ''DIRECTORY''
      then Some [Fmt workspace_url, Lit ''/api/2.0/permissions/directories/'', Fmt object_id]
      else None)"

subsection \<open>The permission mapper (lines 127-139 of \<^verbatim>\<open>get_permissions\<close>)\<close>

text \<open>Lines 132-136: the level of one entry of the access-control list.\<close>

definition acl_item_level :: "pyval \<Rightarrow> py_error + pyval" where
  "acl_item_level item =
     (case py_get item ''all_permissions'' (PList []) of
        Inl e \<Rightarrow> Inl e
      | Inr all_permissions \<Rightarrow>
          if truthy all_permissions
          then (case py_first all_permissions of
                  Inl e \<Rightarrow> Inl e
                | Inr p \<Rightarrow> py_get p ''permission_level'' (PStr ''UNKNOWN''))
          else py_get item ''permission_level'' (PStr ''UNKNOWN''))"

text \<open>Lines 129-137: the loop over the entries, writing into \<^verbatim>\<open>user_permissions\<close>.\<close>

fun acl_loop :: "pyval list \<Rightarrow> pydict \<Rightarrow> py_error + pydict" where
  "acl_loop [] user_permissions = Inr user_permissions"
| "acl_loop (item # rest) user_permissions =
     (case py_get item ''user_name'' PNone of
        Inl e \<Rightarrow> Inl e
      | Inr user_name \<Rightarrow>
          (case acl_item_level item of
             Inl e \<Rightarrow> Inl e
           | Inr permission_level \<Rightarrow>
               if hashable user_name
               then acl_loop rest (dict_set user_permissions user_name permission_level)
               else Inl TypeError))"

text \<open>Lines 127-139: from the parsed body of the permissions response.\<close>

definition map_permissions :: "pyval \<Rightarrow> py_error + pydict" where
  "map_permissions permissions =
     (case py_get permissions ''access_control_list'' (PList []) of
        Inl e \<Rightarrow> Inl e
      | Inr acl \<Rightarrow>
          (case py_iter acl of
             Inl e \<Rightarrow> Inl e
           | Inr items \<Rightarrow> acl_loop items []))"

definition permissions_request :: "fstring \<Rightarrow> pyval \<Rightarrow> request" where
  "permissions_request endpoint access_token =
     \<lparr>meth = GET, url = endpoint, headers = get_headers access_token, params = [],
      json_body = None\<rparr>"

definition get_permissions :: "world \<Rightarrow> pyval \<Rightarrow> pyval \<Rightarrow> pyval \<Rightarrow> pydict option io" where
  "get_permissions w workspace_url access_token path =
     thn (get_object_status w workspace_url access_token path) (\<lambda>object_status.
       if \<not> truthy object_status then ret None
       else
         thn (lift (py_get object_status ''object_id'' PNone)) (\<lambda>object_id.
         thn (lift (py_get object_status ''object_type'' PNone)) (\<lambda>object_type.
           case api_permissions workspace_url object_type object_id of
             None \<Rightarrow> ret None
           | Some endpoint \<Rightarrow> (\<lambda>tr.
               case send w (permissions_request endpoint access_token) tr of
                 (Caught, tr') \<Rightarrow> (Inr None, tr')
               | (Uncaught e, tr') \<Rightarrow> (Inl e, tr')
               | (Passed (Unreadable e), tr') \<Rightarrow>
                   if e = RequestException then (Inr None, tr') else (Inl e, tr')
               | (Passed (Json permissions), tr') \<Rightarrow>
                   (case map_permissions permissions of
                      Inl e \<Rightarrow> (Inl e, tr')
                    | Inr user_permissions \<Rightarrow> (Inr (Some user_permissions), tr'))))))"

subsection \<open>Granting\<close>

text \<open>Lines 162-176: the request body.\<close>

definition grant_data :: "pyval \<Rightarrow> pyval \<Rightarrow> pyval \<Rightarrow> pyval" where
  "grant_data email permission_level cluster_id =
     PDict [(''access_control_list'', PList
       ([PDict [(''user_name'', email), (''permission_level'', permission_level)]] @
        (if truthy cluster_id
         then [PDict [(''user_name'', email), (''permission_level'', PStr ''CAN_ATTACH_TO''),
                      (''cluster_id'', cluster_id)]]
         else [])))]"

definition grant_permissions ::
  "world \<Rightarrow> pyval \<Rightarrow> pyval \<Rightarrow> pyval \<Rightarrow> pyval \<Rightarrow> pyval \<Rightarrow> pyval \<Rightarrow> bool io" where
  "grant_permissions w workspace_url access_token path email permission_level cluster_id =
     thn (get_object_status w workspace_url access_token path) (\<lambda>object_status.
       if \<not> truthy object_status then ret False
       else
         thn (lift (py_get object_status ''object_id'' PNone)) (\<lambda>object_id.
         thn (lift (py_get object_status ''object_type'' PNone)) (\<lambda>object_type.
           case api_permissions workspace_url object_type object_id of
             None \<Rightarrow> ret False
           | Some endpoint \<Rightarrow>
               thn (lift (py_in ''databricks.com'' workspace_url)) (\<lambda>managed. (\<lambda>tr.
                 case send w
                   \<lparr>meth = (if managed then PATCH else PUT), url = endpoint,
                    headers = get_headers access_token, params = [],
                    json_body = Some (grant_data email permission_level cluster_id)\<rparr> tr of
                   (Caught, tr') \<Rightarrow> (Inr False, tr')
                 | (Uncaught e, tr') \<Rightarrow> (Inl e, tr')
                 | (Passed b, tr') \<Rightarrow> (Inr True, tr'))))))"

section \<open>The sync orchestrator\<close>

text \<open>Lines 231-233: the grants for one imported notebook.\<close>

definition grant_all ::
  "world \<Rightarrow> config \<Rightarrow> pyval \<Rightarrow> pydict option \<Rightarrow> pyval \<Rightarrow> unit io" where
  "grant_all w target_config path source_permissions cluster_id =
     (case source_permissions of
        None \<Rightarrow> ret ()
      | Some perms \<Rightarrow>
          for_each (\<lambda>(user, permission_level).
              thn (grant_permissions w (cfg_url target_config) (cfg_token target_config)
                     path user permission_level cluster_id)
                (\<lambda>granted. ret ()))
            perms)"

text \<open>Lines 225-233: the body of the loop over the listed objects.\<close>

definition sync_object ::
  "world \<Rightarrow> config \<Rightarrow> config \<Rightarrow> pydict option \<Rightarrow> pyval \<Rightarrow> pyval \<Rightarrow> unit io" where
  "sync_object w source_config target_config source_permissions cluster_id nb =
     thn (lift (py_item nb ''object_type'')) (\<lambda>object_type.
       if object_type = PStr ''NOTEBOOK''
       then
         thn (lift (py_item nb ''path'')) (\<lambda>path.
         thn (export_notebook w (cfg_url source_config) (cfg_token source_config) path)
           (\<lambda>content.
             case content of
               None \<Rightarrow> ret ()
             | Some text \<Rightarrow>
                 thn (import_notebook w (cfg_url target_config) (cfg_token target_config)
                        text path ''PYTHON'')
                   (\<lambda>u. grant_all w target_config path source_permissions cluster_id)))
       else ret ())"

definition sync_notebooks_and_permissions ::
  "world \<Rightarrow> string \<Rightarrow> string \<Rightarrow> pyval \<Rightarrow> pyval \<Rightarrow> unit io" where
  "sync_notebooks_and_permissions w source_cloud target_cloud git_url cluster_id tr =
     (case (get_workspace_config w source_cloud, get_workspace_config w target_cloud) of
        (Some source_config, Some target_config) \<Rightarrow>
          thn (if truthy git_url
               then pull_notebooks_from_git w git_url (NOTEBOOK_DIR w)
               else ret True)
            (\<lambda>pulled.
              if \<not> pulled then ret ()
              else
                thn (get_permissions w (cfg_url source_config) (cfg_token source_config)
                       (NOTEBOOK_DIR w)) (\<lambda>source_permissions.
                thn (list_notebooks w (cfg_url source_config) (cfg_token source_config)
                       (NOTEBOOK_DIR w)) (\<lambda>source_notebooks.
                thn (lift (py_iter source_notebooks)) (\<lambda>objects.
                thn (for_each
                       (sync_object w source_config target_config source_permissions cluster_id)
                       objects) (\<lambda>u.
                thn (get_permissions w (cfg_url target_config) (cfg_token target_config)
                       (NOTEBOOK_DIR w)) (\<lambda>target_permissions.
                  ret ()))))))
            tr
      | _ \<Rightarrow> (Inr (), tr))"

section \<open>Vocabulary of the properties\<close>

text \<open>An HTTP request, as opposed to the clone.\<close>

definition is_http :: "event \<Rightarrow> bool" where
  "is_http e = (case e of Http rq \<Rightarrow> True | GitClone u d \<Rightarrow> False)"

text \<open>
  Two provider names match case-insensitively when they are the same once both are in
  capitals, by the case mapping of the language.
\<close>

definition matches_ignoring_case :: "world \<Rightarrow> string \<Rightarrow> string \<Rightarrow> bool" where
  "matches_ignoring_case w a b = (str_upper w a = str_upper w b)"

text \<open>
  On ASCII text the case mapping is known whatever the Unicode tables of the interpreter:
  \<^verbatim>\<open>str.upper()\<close> takes 32 off the letters a..z (codes 97..122) and leaves every other
  ASCII character as it is.
\<close>

definition ascii :: "string \<Rightarrow> bool" where
  "ascii s = list_all (\<lambda>c. (of_char c :: nat) < 128) s"

definition ascii_upper_char :: "char \<Rightarrow> char" where
  "ascii_upper_char c =
     (let n = (of_char c :: nat)
      in if 97 \<le> n \<and> n \<le> 122 then char_of (n - 32) else c)"

definition ascii_upper :: "string \<Rightarrow> string" where
  "ascii_upper s = map ascii_upper_char s"

definition upper_on_ascii :: "world \<Rightarrow> bool" where
  "upper_on_ascii w = (\<forall>s. ascii s \<longrightarrow> str_upper w s = ascii_upper s)"

text \<open>
  The everyday reading on ASCII names: they agree after their capital letters A..Z (codes
  65..90) are made small.
\<close>

definition lower_char :: "char \<Rightarrow> char" where
  "lower_char c =
     (let n = (of_char c :: nat)
      in if 65 \<le> n \<and> n \<le> 90 then char_of (n + 32) else c)"

definition same_ignoring_case :: "string \<Rightarrow> string \<Rightarrow> bool" where
  "same_ignoring_case a b = (map lower_char a = map lower_char b)"

text \<open>A listed object whose \<^verbatim>\<open>object_type\<close> is \<^verbatim>\<open>"NOTEBOOK"\<close>.\<close>

definition is_notebook :: "pyval \<Rightarrow> bool" where
  "is_notebook nb = (py_item nb ''object_type'' = Inr (PStr ''NOTEBOOK''))"

section \<open>Example worlds\<close>

text \<open>
  An environment with an AWS workspace on the managed platform's public domain and an
  Azure workspace elsewhere; nothing is configured for GCP.
\<close>

text \<open>
  A case mapping that is \<^verbatim>\<open>str.upper()\<close> on text made of ASCII characters and the long
  s (U+017F, the bytes C5 BF), whose capital is S.
\<close>

fun demo_upper :: "string \<Rightarrow> string" where
  "demo_upper (c # d # cs) =
     (if c = CHR 0xC5 \<and> d = CHR 0xBF then CHR ''S'' # demo_upper cs
      else ascii_upper_char c # demo_upper (d # cs))"
| "demo_upper [c] = [ascii_upper_char c]"
| "demo_upper [] = []"

definition demo_env :: "string \<Rightarrow> string option" where
  "demo_env = map_of
     [(''AWS_WORKSPACE_URL'', ''https://dbc-1.cloud.databricks.com''),
      (''AWS_ACCESS_TOKEN'', ''token-aws''),
      (''AZURE_WORKSPACE_URL'', ''https://adb-1.azuredatabricks.net''),
      (''AZURE_ACCESS_TOKEN'', ''token-azure''),
      (''NOTEBOOK_DIR'', ''/Shared'')]"

text \<open>No network, and a clone that exits with a non-zero code.\<close>

definition offline_world :: world where
  "offline_world =
     \<lparr>getenv = demo_env, clone = (\<lambda>u d. CloneNonZero), respond = (\<lambda>tr rq. Raised RequestException),
      str_upper = demo_upper, b64decode_utf8 = Some, b64encode_utf8 = id\<rparr>"

text \<open>
  A workspace that lists two notebooks and a directory, fails every export of
  \<^verbatim>\<open>/Shared/a\<close>, answers the other exports with a given body, and reports two principals
  in its access-control list, one in each shape. A request to a workspace whose URL is
  not a string fails.
\<close>

definition demo_status :: pyval where
  "demo_status = PDict [(''object_id'', PInt 7), (''object_type'', PStr ''NOTEBOOK'')]"

definition demo_acl :: pyval where
  "demo_acl = PList
     [PDict [(''user_name'', PStr ''alice''),
             (''all_permissions'', PList [PDict [(''permission_level'', PStr ''CAN_MANAGE'')]])],
      PDict [(''user_name'', PStr ''bob''), (''permission_level'', PStr ''CAN_READ'')]]"

definition demo_nb_a :: pyval where
  "demo_nb_a = PDict [(''path'', PStr ''/Shared/a''), (''object_type'', PStr ''NOTEBOOK'')]"

definition demo_dir :: pyval where
  "demo_dir = PDict [(''path'', PStr ''/Shared/lib''), (''object_type'', PStr ''DIRECTORY'')]"

definition demo_nb_b :: pyval where
  "demo_nb_b = PDict [(''path'', PStr ''/Shared/b''), (''object_type'', PStr ''NOTEBOOK'')]"

definition demo_objects :: pyval where
  "demo_objects = PList [demo_nb_a, demo_dir, demo_nb_b]"

definition demo_respond :: "pyval \<Rightarrow> event list \<Rightarrow> request \<Rightarrow> outcome" where
  "demo_respond export_body tr rq =
     (case url rq of
        [Fmt (PStr base), Lit l] \<Rightarrow>
          if l = ''/api/2.0/workspace/list''
          then Replied 200 (Json (PDict [(''objects'', demo_objects)]))
          else if l = ''/api/2.0/workspace/export''
          then (if map_of (params rq) ''path'' = Some (PStr ''/Shared/a'')
                then Raised RequestException else Replied 200 (Json export_body))
          else if l = ''/api/2.0/workspace/get-status''
          then Replied 200 (Json demo_status)
          else Replied 200 (Json (PDict []))
      | [Fmt (PStr base), Lit l, Fmt object_id] \<Rightarrow>
          if meth rq = GET
          then Replied 200 (Json (PDict [(''access_control_list'', demo_acl)]))
          else Replied 200 (Json (PDict []))
      | _ \<Rightarrow> Raised RequestException)"

definition demo_world :: world where
  "demo_world =
     \<lparr>getenv = demo_env, clone = (\<lambda>u d. CloneOk),
      respond = demo_respond (PDict [(''content'', PStr ''cHJpbnQoMik='')]),
      str_upper = demo_upper,
      b64decode_utf8 = map_of [(''cHJpbnQoMik='', ''print(2)'')],
      b64encode_utf8 = (\<lambda>s. if s = ''print(2)'' then ''cHJpbnQoMik='' else [])\<rparr>"





definition demo_source :: config where
  "demo_source =
     \<lparr>cfg_url = PStr ''https://dbc-1.cloud.databricks.com'', cfg_token = PStr ''token-aws''\<rparr>"

definition demo_target :: config where
  "demo_target =
     \<lparr>cfg_url = PStr ''https://adb-1.azuredatabricks.net'', cfg_token = PStr ''token-azure''\<rparr>"

section \<open>Events of a computation\<close>

text \<open>Every computation extends the trace; \<open>emits Q m\<close> says that each event it adds
  satisfies \<open>Q\<close>.\<close>

definition emits :: "(event \<Rightarrow> bool) \<Rightarrow> 'a io \<Rightarrow> bool" where
  "emits Q m = (\<forall>tr. \<exists>new. snd (m tr) = tr @ new \<and> list_all Q new)"

section \<open>The permission mapper as the specification words it\<close>

text \<open>
  ``For each entry extract \<^verbatim>\<open>user_name\<close>; if the entry carries a nested
  \<^verbatim>\<open>all_permissions\<close> array, take the \<^verbatim>\<open>permission_level\<close> of its first element, else
  fall back to a top-level \<^verbatim>\<open>permission_level\<close> field, defaulting to the literal string
  "UNKNOWN" if neither is present. Later entries for the same principal overwrite earlier
  ones.'' An entry without \<^verbatim>\<open>user_name\<close> has the principal \<^verbatim>\<open>None\<close>; an array with
  no first element counts as no array; a first element without the field gets the default.
\<close>

definition spec_principal :: "pyval \<Rightarrow> pyval" where
  "spec_principal item =
     (case item of
        PDict e \<Rightarrow> (case map_of e ''user_name'' of Some u \<Rightarrow> u | None \<Rightarrow> PNone)
      | _ \<Rightarrow> PNone)"

definition spec_field_or_unknown :: "(string \<times> pyval) list \<Rightarrow> pyval" where
  "spec_field_or_unknown e =
     (case map_of e ''permission_level'' of Some x \<Rightarrow> x | None \<Rightarrow> PStr ''UNKNOWN'')"

definition spec_level :: "pyval \<Rightarrow> pyval" where
  "spec_level item =
     (case item of
        PDict e \<Rightarrow>
          (case map_of e ''all_permissions'' of
             Some (PList (PDict first # others)) \<Rightarrow> spec_field_or_unknown first
           | _ \<Rightarrow> spec_field_or_unknown e)
      | _ \<Rightarrow> PStr ''UNKNOWN'')"

text \<open>The mapping: a principal has the level of the last entry that names it.\<close>

definition spec_permissions :: "pyval list \<Rightarrow> pyval \<Rightarrow> pyval option" where
  "spec_permissions items k =
     map_option spec_level (find (\<lambda>item. py_eq (spec_principal item) k) (rev items))"

text \<open>
  An entry of the shape the mapper is written for: an object, whose \<^verbatim>\<open>user_name\<close> can
  be a dictionary key, and whose \<^verbatim>\<open>all_permissions\<close>, when it is there and not empty (or
  otherwise false), is an array that starts with an object.
\<close>

definition nested_ok :: "pyval \<Rightarrow> bool" where
  "nested_ok all_permissions =
     (case all_permissions of PList (PDict first # others) \<Rightarrow> True | v \<Rightarrow> \<not> truthy v)"

definition acl_entry_ok :: "pyval \<Rightarrow> bool" where
  "acl_entry_ok item =
     (case item of
        PDict e \<Rightarrow>
          hashable (spec_principal item) \<and>
          (case map_of e ''all_permissions'' of None \<Rightarrow> True | Some v \<Rightarrow> nested_ok v)
      | _ \<Rightarrow> False)"

text \<open>An entry with one field taken away.\<close>

definition without_field :: "string \<Rightarrow> pyval \<Rightarrow> pyval" where
  "without_field name item =
     (case item of PDict e \<Rightarrow> PDict (filter (\<lambda>kv. fst kv \<noteq> name) e) | v \<Rightarrow> v)"

text \<open>One round of the mapper's loop on an entry of that shape, and the number of keys of
  a dictionary that equal a given key.\<close>

definition acl_step :: "pyval \<Rightarrow> pydict \<Rightarrow> pydict" where
  "acl_step item d = dict_set d (spec_principal item) (spec_level item)"

definition key_count :: "pydict \<Rightarrow> pyval \<Rightarrow> nat" where
  "key_count d k = length (filter (\<lambda>kv. py_eq (fst kv) k) d)"

subsection \<open>Example entries\<close>

definition alice_nested :: pyval where
  "alice_nested = PDict [(''user_name'', PStr ''alice''),
     (''all_permissions'', PList [PDict [(''permission_level'', PStr ''CAN_MANAGE'')],
                                  PDict [(''permission_level'', PStr ''CAN_RUN'')]])]"

definition alice_flat :: pyval where
  "alice_flat = PDict [(''user_name'', PStr ''alice''), (''permission_level'', PStr ''CAN_READ'')]"

definition bob_flat :: pyval where
  "bob_flat = PDict [(''user_name'', PStr ''bob''), (''permission_level'', PStr ''CAN_READ'')]"

definition carol_bare :: pyval where
  "carol_bare = PDict [(''user_name'', PStr ''carol'')]"

definition nameless :: pyval where
  "nameless = PDict [(''permission_level'', PStr ''CAN_RUN'')]"

definition bob_empty_nested :: "(string \<times> pyval) list" where
  "bob_empty_nested = [(''user_name'', PStr ''bob''), (''all_permissions'', PList []),
     (''permission_level'', PStr ''CAN_EDIT'')]"

section \<open>Failed requests\<close>



section \<open>Basic facts\<close>

lemma status_200 [simp]: "\<not> raises_for_status 200"
  by (simp add: raises_for_status_def)

lemma thn_lift_Inr [simp]: "thn (lift (Inr x)) f = f x"
  by (rule ext) (simp add: thn_def lift_def)

lemma thn_ret [simp]: "thn (ret x) f = f x"
  by (rule ext) (simp add: thn_def ret_def)

section \<open>Configuration resolution\<close>

lemma of_char_ascii_upper_char:
  "(of_char (ascii_upper_char c) :: nat) =
     (if 97 \<le> (of_char c :: nat) \<and> (of_char c :: nat) \<le> 122 then of_char c - 32 else of_char c)"
  using nat_of_char_less_256 [of c] by (auto simp: ascii_upper_char_def Let_def)

lemma of_char_lower_char:
  "(of_char (lower_char c) :: nat) =
     (if 65 \<le> (of_char c :: nat) \<and> (of_char c :: nat) \<le> 90 then of_char c + 32 else of_char c)"
  using nat_of_char_less_256 [of c] by (auto simp: lower_char_def Let_def)

lemma char_of_nat_eq: "char_of (n::nat) = c \<longleftrightarrow> n mod 256 = of_char c"
  by (simp add: char_of_eq_iff take_bit_eq_mod)

lemma eq_char_of_nat: "c = char_of (n::nat) \<longleftrightarrow> of_char c = n mod 256"
  by (metis char_of_nat_eq)

lemma upper_eq_iff_lower_eq:
  "ascii_upper_char c = ascii_upper_char d \<longleftrightarrow> lower_char c = lower_char d"
proof -
  define n m where nm: "n = (of_char c :: nat)" "m = (of_char d :: nat)"
  have "(of_char (ascii_upper_char c) :: nat) = of_char (ascii_upper_char d)
      \<longleftrightarrow> (of_char (lower_char c) :: nat) = of_char (lower_char d)"
    unfolding of_char_ascii_upper_char of_char_lower_char nm [symmetric]
    by (auto split: if_splits)
  then show ?thesis by (simp only: of_char_eq_iff)
qed

lemma ascii_upper_eq_iff: "ascii_upper a = ascii_upper b \<longleftrightarrow> same_ignoring_case a b"
  unfolding ascii_upper_def same_ignoring_case_def
proof (induction a arbitrary: b)
  case Nil
  then show ?case by auto
next
  case (Cons x xs)
  then show ?case by (cases b) (auto simp: upper_eq_iff_lower_eq)
qed

lemma ascii_keys: "ascii ''AWS''" "ascii ''AZURE''" "ascii ''GCP''"
  by (simp_all add: ascii_def)

lemma ascii_upper_keys:
  "ascii_upper ''AWS'' = ''AWS''" "ascii_upper ''AZURE'' = ''AZURE''" "ascii_upper ''GCP'' = ''GCP''"
  by (simp_all add: ascii_upper_def ascii_upper_char_def)

lemma str_upper_keys:
  assumes "upper_on_ascii w"
  shows "str_upper w ''AWS'' = ''AWS''" "str_upper w ''AZURE'' = ''AZURE''"
    "str_upper w ''GCP'' = ''GCP''"
  using assms ascii_keys by (simp_all add: upper_on_ascii_def ascii_upper_keys)

lemma matches_on_ascii:
  assumes "upper_on_ascii w" and "ascii a" and "ascii b"
  shows "matches_ignoring_case w a b \<longleftrightarrow> same_ignoring_case a b"
  using assms by (simp add: matches_ignoring_case_def upper_on_ascii_def ascii_upper_eq_iff)

lemma get_workspace_config_cases:
  assumes "upper_on_ascii w"
  shows "get_workspace_config w p =
     (if matches_ignoring_case w p ''AWS''
      then Some \<lparr>cfg_url = of_env (getenv w ''AWS_WORKSPACE_URL''),
                 cfg_token = of_env (getenv w ''AWS_ACCESS_TOKEN'')\<rparr>
      else if matches_ignoring_case w p ''AZURE''
      then Some \<lparr>cfg_url = of_env (getenv w ''AZURE_WORKSPACE_URL''),
                 cfg_token = of_env (getenv w ''AZURE_ACCESS_TOKEN'')\<rparr>
      else if matches_ignoring_case w p ''GCP''
      then Some \<lparr>cfg_url = of_env (getenv w ''GCP_WORKSPACE_URL''),
                 cfg_token = of_env (getenv w ''GCP_ACCESS_TOKEN'')\<rparr>
      else None)"
  unfolding matches_ignoring_case_def str_upper_keys [OF assms] get_workspace_config_def
    WORKSPACE_CONFIG_def
  by auto

lemma sync_unknown_provider:
  "get_workspace_config w source_cloud = None \<or> get_workspace_config w target_cloud = None
   \<Longrightarrow> sync_notebooks_and_permissions w source_cloud target_cloud git_url cluster_id tr = (Inr (), tr)"
  by (auto simp: sync_notebooks_and_permissions_def split: option.splits)

text \<open>
  C8: a provider name that matches AWS, AZURE or GCP case-insensitively resolves to that
  provider's pair of URL and token, whatever the environment holds (an unset variable
  gives \<^verbatim>\<open>None\<close> in the pair); any other name resolves to nothing, and the
  orchestrator then returns at once with the trace as it was: no clone, no request. A name
  matches when \<^verbatim>\<open>str.upper()\<close> makes it the provider's key; for an ASCII name that is to
  say that it spells the key in whatever mix of small and capital letters.
\<close>

theorem workspace_config_resolution:
  assumes "upper_on_ascii w"
  shows
  "(matches_ignoring_case w p ''AWS'' \<longrightarrow>
      get_workspace_config w p =
        Some \<lparr>cfg_url = of_env (getenv w ''AWS_WORKSPACE_URL''),
              cfg_token = of_env (getenv w ''AWS_ACCESS_TOKEN'')\<rparr>) \<and>
   (matches_ignoring_case w p ''AZURE'' \<longrightarrow>
      get_workspace_config w p =
        Some \<lparr>cfg_url = of_env (getenv w ''AZURE_WORKSPACE_URL''),
              cfg_token = of_env (getenv w ''AZURE_ACCESS_TOKEN'')\<rparr>) \<and>
   (matches_ignoring_case w p ''GCP'' \<longrightarrow>
      get_workspace_config w p =
        Some \<lparr>cfg_url = of_env (getenv w ''GCP_WORKSPACE_URL''),
              cfg_token = of_env (getenv w ''GCP_ACCESS_TOKEN'')\<rparr>) \<and>
   (\<not> matches_ignoring_case w p ''AWS'' \<and> \<not> matches_ignoring_case w p ''AZURE'' \<and>
    \<not> matches_ignoring_case w p ''GCP'' \<longrightarrow> get_workspace_config w p = None) \<and>
   (get_workspace_config w p = None \<longrightarrow>
      sync_notebooks_and_permissions w p q git_url cluster_id tr = (Inr (), tr) \<and>
      sync_notebooks_and_permissions w q p git_url cluster_id tr = (Inr (), tr)) \<and>
   (ascii p \<longrightarrow>
      (matches_ignoring_case w p ''AWS'' \<longleftrightarrow> same_ignoring_case p ''AWS'') \<and>
      (matches_ignoring_case w p ''AZURE'' \<longleftrightarrow> same_ignoring_case p ''AZURE'') \<and>
      (matches_ignoring_case w p ''GCP'' \<longleftrightarrow> same_ignoring_case p ''GCP''))"
proof -
  have ne: "''AWS'' \<noteq> ''AZURE''" "''AWS'' \<noteq> ''GCP''" "''AZURE'' \<noteq> ''GCP''"
    by simp_all
  have excl: "matches_ignoring_case w p ''AZURE'' \<Longrightarrow> \<not> matches_ignoring_case w p ''AWS''"
    "matches_ignoring_case w p ''GCP'' \<Longrightarrow> \<not> matches_ignoring_case w p ''AWS''"
    "matches_ignoring_case w p ''GCP'' \<Longrightarrow> \<not> matches_ignoring_case w p ''AZURE''"
    using ne by (simp_all add: matches_ignoring_case_def str_upper_keys [OF assms])
  show ?thesis
    using excl sync_unknown_provider [of w p q git_url cluster_id tr]
      sync_unknown_provider [of w q p git_url cluster_id tr]
      matches_on_ascii [OF assms _ ascii_keys(1), of p]
      matches_on_ascii [OF assms _ ascii_keys(2), of p]
      matches_on_ascii [OF assms _ ascii_keys(3), of p]
    by (auto simp: get_workspace_config_cases [OF assms])
qed

lemma demo_upper_ascii: "ascii s \<Longrightarrow> demo_upper s = ascii_upper s"
proof (induction s rule: demo_upper.induct)
  case (1 c d cs)
  from "1.prems" have "(of_char c :: nat) < 128" by (simp add: ascii_def)
  then have c: "c \<noteq> CHR 0xC5" by auto
  with 1 show ?case by (simp add: ascii_def ascii_upper_def)
next
  case (2 c)
  show ?case by (simp add: ascii_upper_def)
next
  case 3
  show ?case by (simp add: ascii_upper_def)
qed

lemma offline_upper: "str_upper offline_world = demo_upper"
  by (simp add: offline_world_def)

lemma upper_on_ascii_offline: "upper_on_ascii offline_world"
  by (simp add: upper_on_ascii_def offline_upper demo_upper_ascii)

lemmas upper_eval = matches_ignoring_case_def ascii_upper_char_def char_of_nat_eq eq_char_of_nat

theorem workspace_config_resolution_witness:
  "get_workspace_config offline_world ''aws'' =
     Some \<lparr>cfg_url = PStr ''https://dbc-1.cloud.databricks.com'', cfg_token = PStr ''token-aws''\<rparr> \<and>
   get_workspace_config offline_world [CHR ''a'', CHR ''w'', CHR 0xC5, CHR 0xBF] =
     Some \<lparr>cfg_url = PStr ''https://dbc-1.cloud.databricks.com'', cfg_token = PStr ''token-aws''\<rparr> \<and>
   get_workspace_config offline_world ''Azure'' =
     Some \<lparr>cfg_url = PStr ''https://adb-1.azuredatabricks.net'', cfg_token = PStr ''token-azure''\<rparr> \<and>
   get_workspace_config offline_world ''gCP'' = Some \<lparr>cfg_url = PNone, cfg_token = PNone\<rparr> \<and>
   get_workspace_config offline_world ''oracle'' = None \<and>
   sync_notebooks_and_permissions offline_world ''oracle'' ''aws'' (PStr []) (PStr []) [] = (Inr (), []) \<and>
   matches_ignoring_case offline_world ''aWs'' ''AWS'' \<and> same_ignoring_case ''aWs'' ''AWS''"
proof -
  have h: "matches_ignoring_case offline_world ''aws'' ''AWS''"
    "matches_ignoring_case offline_world [CHR ''a'', CHR ''w'', CHR 0xC5, CHR 0xBF] ''AWS''"
    "matches_ignoring_case offline_world ''Azure'' ''AZURE''"
    "matches_ignoring_case offline_world ''gCP'' ''GCP''"
    "\<not> matches_ignoring_case offline_world ''oracle'' ''AWS'' \<and>
     \<not> matches_ignoring_case offline_world ''oracle'' ''AZURE'' \<and>
     \<not> matches_ignoring_case offline_world ''oracle'' ''GCP''"
    by (simp_all add: offline_upper upper_eval)
  have a: "ascii ''aWs''" by (simp add: ascii_def)
  have s: "same_ignoring_case ''aWs'' ''AWS''"
    by (simp add: same_ignoring_case_def lower_char_def eq_char_of_nat)
  note t = workspace_config_resolution [OF upper_on_ascii_offline]
  show ?thesis
    using h a s t [of "''aws''"] t [of "[CHR ''a'', CHR ''w'', CHR 0xC5, CHR 0xBF]"]
      t [of "''Azure''"] t [of "''gCP''"]
      t [of "''oracle''" "''aws''" "PStr []" "PStr []" "[]"] t [of "''aWs''"]
    by (simp add: offline_world_def demo_env_def of_env_def)
qed

section \<open>Git seeding failure\<close>

text \<open>
  C4: with both providers resolved, a Git URL supplied and a clone that exits with a
  non-zero code, the orchestrator returns normally and the clone is the only event of the
  run: the requests on the trace are the ones that were there before.
\<close>

theorem git_clone_failure_aborts:
  assumes "get_workspace_config w source_cloud = Some source_config"
    and "get_workspace_config w target_cloud = Some target_config"
    and "u \<noteq> []" and "NOTEBOOK_DIR w = PStr d" and "clone w u d = CloneNonZero"
  shows "sync_notebooks_and_permissions w source_cloud target_cloud (PStr u) cluster_id tr
           = (Inr (), tr @ [GitClone u d]) \<and>
         filter is_http (snd (sync_notebooks_and_permissions w source_cloud target_cloud
           (PStr u) cluster_id tr)) = filter is_http tr"
  using assms
  by (simp add: sync_notebooks_and_permissions_def pull_notebooks_from_git_def thn_def ret_def
      is_http_def)

theorem git_clone_failure_aborts_witness:
  "sync_notebooks_and_permissions offline_world ''aws'' ''azure''
       (PStr ''git@example.org:team/notebooks.git'') (PStr []) []
     = (Inr (), [GitClone ''git@example.org:team/notebooks.git'' ''/Shared'']) \<and>
   filter is_http (snd (sync_notebooks_and_permissions offline_world ''aws'' ''azure''
       (PStr ''git@example.org:team/notebooks.git'') (PStr []) [])) = []"
proof -
  have c: "get_workspace_config offline_world ''aws'' =
      Some \<lparr>cfg_url = PStr ''https://dbc-1.cloud.databricks.com'', cfg_token = PStr ''token-aws''\<rparr>"
    "get_workspace_config offline_world ''azure'' =
      Some \<lparr>cfg_url = PStr ''https://adb-1.azuredatabricks.net'', cfg_token = PStr ''token-azure''\<rparr>"
    by (simp_all add: get_workspace_config_def WORKSPACE_CONFIG_def offline_upper upper_eval
        offline_world_def demo_env_def of_env_def)
  have d: "NOTEBOOK_DIR offline_world = PStr ''/Shared''"
    by (simp add: NOTEBOOK_DIR_def offline_world_def demo_env_def of_env_def)
  have e: "clone offline_world ''git@example.org:team/notebooks.git'' ''/Shared'' = CloneNonZero"
    by (simp add: offline_world_def)
  show ?thesis
    using git_clone_failure_aborts [OF c _ d e, of "PStr []" "[]"] by (simp add: is_http_def)
qed


section \<open>Granting\<close>

lemma starts_with_iff: "starts_with p s \<longleftrightarrow> (\<exists>post. s = p @ post)"
  by (induction p s rule: starts_with.induct) auto

lemma str_contains_iff: "str_contains n s \<longleftrightarrow> (\<exists>pre post. s = pre @ n @ post)"
proof (induction s)
  case Nil
  then show ?case by auto
next
  case (Cons c cs)
  have "(\<exists>pre post. c # cs = pre @ n @ post) \<longleftrightarrow>
        (\<exists>post. c # cs = n @ post) \<or> (\<exists>pre post. cs = pre @ n @ post)"
    (is "?L \<longleftrightarrow> ?A \<or> ?B")
  proof
    assume ?L
    then obtain pre post where e: "c # cs = pre @ n @ post" by blast
    show "?A \<or> ?B"
    proof (cases pre)
      case Nil
      with e show ?thesis by auto
    next
      case (Cons a pre')
      with e have "cs = pre' @ n @ post" by simp
      then show ?thesis by blast
    qed
  next
    assume "?A \<or> ?B"
    then show ?L
    proof
      assume ?A
      then obtain post where "c # cs = [] @ n @ post" by auto
      then show ?L by blast
    next
      assume ?B
      then obtain pre post where "cs = pre @ n @ post" by blast
      then have "c # cs = (c # pre) @ n @ post" by simp
      then show ?L by blast
    qed
  qed
  with Cons show ?case by (simp add: starts_with_iff)
qed

lemma get_object_status_trace:
  "get_object_status w u t p tr = (r, tr') \<Longrightarrow> tr' = tr @ [Http (status_request u t p)]"
  by (auto simp: get_object_status_def send_def split: outcome.splits if_splits body.splits)

lemma grant_permissions_sends:
  assumes "get_object_status w workspace_url access_token path tr = (Inr object_status, tr1)"
    and "truthy object_status"
    and "py_get object_status ''object_id'' PNone = Inr object_id"
    and "py_get object_status ''object_type'' PNone = Inr object_type"
    and "api_permissions workspace_url object_type object_id = Some endpoint"
    and "py_in ''databricks.com'' workspace_url = Inr managed"
  shows "snd (grant_permissions w workspace_url access_token path email permission_level cluster_id tr)
     = tr1 @ [Http \<lparr>meth = (if managed then PATCH else PUT), url = endpoint,
                     headers = get_headers access_token, params = [],
                     json_body = Some (grant_data email permission_level cluster_id)\<rparr>]"
  using assms
  by (simp add: grant_permissions_def thn_def ret_def lift_def send_def
      split: outcome.splits)

text \<open>
  C5: when the grant operation gets as far as its request (the object's status is known
  and its type has a permissions endpoint), the request's method is PATCH exactly when
  the workspace URL contains \<^verbatim>\<open>databricks.com\<close>, and PUT for every other URL.
\<close>

theorem grant_method_selection:
  assumes "get_object_status w (PStr workspace_url) access_token path tr = (Inr object_status, tr1)"
    and "truthy object_status"
    and "py_get object_status ''object_id'' PNone = Inr object_id"
    and "py_get object_status ''object_type'' PNone = Inr object_type"
    and "api_permissions (PStr workspace_url) object_type object_id = Some endpoint"
  shows "snd (grant_permissions w (PStr workspace_url) access_token path email permission_level
            cluster_id tr)
     = tr1 @ [Http \<lparr>meth = (if \<exists>pre post. workspace_url = pre @ ''databricks.com'' @ post
                             then PATCH else PUT),
                     url = endpoint, headers = get_headers access_token, params = [],
                     json_body = Some (grant_data email permission_level cluster_id)\<rparr>]"
  using grant_permissions_sends [OF assms, of "str_contains ''databricks.com'' workspace_url"]
  by (simp add: str_contains_iff)

lemma demo_status_lookup:
  "get_object_status demo_world (PStr u) t p tr
     = (Inr demo_status, tr @ [Http (status_request (PStr u) t p)])"
  by (simp add: get_object_status_def send_def demo_world_def demo_respond_def status_request_def)

theorem grant_method_selection_witness:
  "snd (grant_permissions demo_world (PStr ''https://dbc-1.cloud.databricks.com'')
          (PStr ''token-aws'') (PStr ''/Shared/a'') (PStr ''alice'') (PStr ''CAN_MANAGE'') (PStr []) [])
     = [Http (status_request (PStr ''https://dbc-1.cloud.databricks.com'') (PStr ''token-aws'')
               (PStr ''/Shared/a'')),
        Http \<lparr>meth = PATCH,
              url = [Fmt (PStr ''https://dbc-1.cloud.databricks.com''),
                     Lit ''/api/2.0/permissions/notebooks/'', Fmt (PInt 7)],
              headers = get_headers (PStr ''token-aws''), params = [],
              json_body = Some (grant_data (PStr ''alice'') (PStr ''CAN_MANAGE'') (PStr []))\<rparr>] \<and>
   snd (grant_permissions demo_world (PStr ''https://adb-1.azuredatabricks.net'')
          (PStr ''token-azure'') (PStr ''/Shared/a'') (PStr ''alice'') (PStr ''CAN_MANAGE'') (PStr []) [])
     = [Http (status_request (PStr ''https://adb-1.azuredatabricks.net'') (PStr ''token-azure'')
               (PStr ''/Shared/a'')),
        Http \<lparr>meth = PUT,
              url = [Fmt (PStr ''https://adb-1.azuredatabricks.net''),
                     Lit ''/api/2.0/permissions/notebooks/'', Fmt (PInt 7)],
              headers = get_headers (PStr ''token-azure''), params = [],
              json_body = Some (grant_data (PStr ''alice'') (PStr ''CAN_MANAGE'') (PStr []))\<rparr>]"
proof -
  have t: "truthy demo_status"
    and i: "py_get demo_status ''object_id'' PNone = Inr (PInt 7)"
    and k: "py_get demo_status ''object_type'' PNone = Inr (PStr ''NOTEBOOK'')"
    by (simp_all add: demo_status_def)
  have e: "api_permissions (PStr u) (PStr ''NOTEBOOK'') (PInt 7)
      = Some [Fmt (PStr u), Lit ''/api/2.0/permissions/notebooks/'', Fmt (PInt 7)]" for u
    by (simp add: api_permissions_def)
  have yes: "\<exists>pre post. ''https://dbc-1.cloud.databricks.com'' = pre @ ''databricks.com'' @ post"
    and no: "\<not> (\<exists>pre post. ''https://adb-1.azuredatabricks.net'' = pre @ ''databricks.com'' @ post)"
    unfolding str_contains_iff [symmetric] by simp_all
  have a: "snd (grant_permissions demo_world (PStr ''https://dbc-1.cloud.databricks.com'')
          (PStr ''token-aws'') (PStr ''/Shared/a'') (PStr ''alice'') (PStr ''CAN_MANAGE'') (PStr []) [])
     = [] @ [Http (status_request (PStr ''https://dbc-1.cloud.databricks.com'') (PStr ''token-aws'')
               (PStr ''/Shared/a''))] @
        [Http \<lparr>meth = PATCH,
              url = [Fmt (PStr ''https://dbc-1.cloud.databricks.com''),
                     Lit ''/api/2.0/permissions/notebooks/'', Fmt (PInt 7)],
              headers = get_headers (PStr ''token-aws''), params = [],
              json_body = Some (grant_data (PStr ''alice'') (PStr ''CAN_MANAGE'') (PStr []))\<rparr>]"
    using grant_method_selection [where w = demo_world
          and workspace_url = "''https://dbc-1.cloud.databricks.com''"
          and access_token = "PStr ''token-aws''" and path = "PStr ''/Shared/a''" and tr = "[]"
          and email = "PStr ''alice''" and permission_level = "PStr ''CAN_MANAGE''"
          and cluster_id = "PStr []", OF demo_status_lookup t i k e]
    by (simp only: yes if_True append_assoc)
  have b: "snd (grant_permissions demo_world (PStr ''https://adb-1.azuredatabricks.net'')
          (PStr ''token-azure'') (PStr ''/Shared/a'') (PStr ''alice'') (PStr ''CAN_MANAGE'') (PStr []) [])
     = [] @ [Http (status_request (PStr ''https://adb-1.azuredatabricks.net'') (PStr ''token-azure'')
               (PStr ''/Shared/a''))] @
        [Http \<lparr>meth = PUT,
              url = [Fmt (PStr ''https://adb-1.azuredatabricks.net''),
                     Lit ''/api/2.0/permissions/notebooks/'', Fmt (PInt 7)],
              headers = get_headers (PStr ''token-azure''), params = [],
              json_body = Some (grant_data (PStr ''alice'') (PStr ''CAN_MANAGE'') (PStr []))\<rparr>]"
    using grant_method_selection [where w = demo_world
          and workspace_url = "''https://adb-1.azuredatabricks.net''"
          and access_token = "PStr ''token-azure''" and path = "PStr ''/Shared/a''" and tr = "[]"
          and email = "PStr ''alice''" and permission_level = "PStr ''CAN_MANAGE''"
          and cluster_id = "PStr []", OF demo_status_lookup t i k e]
    by (simp only: no if_False append_assoc)
  show ?thesis
    using a b by simp
qed

text \<open>
  C7: the body of the grant request is an access-control list that holds the entry of the
  principal and the level, followed by a \<^verbatim>\<open>CAN_ATTACH_TO\<close> entry for the same
  principal with the cluster id exactly when a non-empty cluster id was supplied: without
  a cluster id, or with the empty string, the first entry is alone.
\<close>

theorem grant_request_body:
  assumes "get_object_status w workspace_url access_token path tr = (Inr object_status, tr1)"
    and "truthy object_status"
    and "py_get object_status ''object_id'' PNone = Inr object_id"
    and "py_get object_status ''object_type'' PNone = Inr object_type"
    and "api_permissions workspace_url object_type object_id = Some endpoint"
    and "py_in ''databricks.com'' workspace_url = Inr managed"
    and "cluster_id = PNone \<or> cluster_id = PStr c"
  shows "snd (grant_permissions w workspace_url access_token path email permission_level
            cluster_id tr)
     = tr1 @ [Http \<lparr>meth = (if managed then PATCH else PUT), url = endpoint,
                     headers = get_headers access_token, params = [],
                     json_body = Some (PDict [(''access_control_list'', PList
                       (PDict [(''user_name'', email), (''permission_level'', permission_level)] #
                        (if cluster_id = PStr c \<and> c \<noteq> []
                         then [PDict [(''user_name'', email),
                                      (''permission_level'', PStr ''CAN_ATTACH_TO''),
                                      (''cluster_id'', PStr c)]]
                         else [])))])\<rparr>]"
  unfolding grant_permissions_sends [OF assms(1-6)]
  using assms(7) by (auto simp: grant_data_def)

theorem grant_request_body_witness:
  "snd (grant_permissions demo_world (PStr ''https://adb-1.azuredatabricks.net'')
          (PStr ''token-azure'') (PStr ''/Shared/b'') (PStr ''alice'') (PStr ''CAN_MANAGE'')
          (PStr ''cluster-9'') [])
     = [Http (status_request (PStr ''https://adb-1.azuredatabricks.net'') (PStr ''token-azure'')
               (PStr ''/Shared/b'')),
        Http \<lparr>meth = PUT,
              url = [Fmt (PStr ''https://adb-1.azuredatabricks.net''),
                     Lit ''/api/2.0/permissions/notebooks/'', Fmt (PInt 7)],
              headers = get_headers (PStr ''token-azure''), params = [],
              json_body = Some (PDict [(''access_control_list'', PList
                [PDict [(''user_name'', PStr ''alice''), (''permission_level'', PStr ''CAN_MANAGE'')],
                 PDict [(''user_name'', PStr ''alice''), (''permission_level'', PStr ''CAN_ATTACH_TO''),
                        (''cluster_id'', PStr ''cluster-9'')]])])\<rparr>] \<and>
   snd (grant_permissions demo_world (PStr ''https://adb-1.azuredatabricks.net'')
          (PStr ''token-azure'') (PStr ''/Shared/b'') (PStr ''alice'') (PStr ''CAN_MANAGE'')
          (PStr []) [])
     = [Http (status_request (PStr ''https://adb-1.azuredatabricks.net'') (PStr ''token-azure'')
               (PStr ''/Shared/b'')),
        Http \<lparr>meth = PUT,
              url = [Fmt (PStr ''https://adb-1.azuredatabricks.net''),
                     Lit ''/api/2.0/permissions/notebooks/'', Fmt (PInt 7)],
              headers = get_headers (PStr ''token-azure''), params = [],
              json_body = Some (PDict [(''access_control_list'', PList
                [PDict [(''user_name'', PStr ''alice''), (''permission_level'', PStr ''CAN_MANAGE'')]])])\<rparr>] \<and>
   snd (grant_permissions demo_world (PStr ''https://adb-1.azuredatabricks.net'')
          (PStr ''token-azure'') (PStr ''/Shared/b'') (PStr ''alice'') (PStr ''CAN_MANAGE'')
          PNone [])
     = [Http (status_request (PStr ''https://adb-1.azuredatabricks.net'') (PStr ''token-azure'')
               (PStr ''/Shared/b'')),
        Http \<lparr>meth = PUT,
              url = [Fmt (PStr ''https://adb-1.azuredatabricks.net''),
                     Lit ''/api/2.0/permissions/notebooks/'', Fmt (PInt 7)],
              headers = get_headers (PStr ''token-azure''), params = [],
              json_body = Some (PDict [(''access_control_list'', PList
                [PDict [(''user_name'', PStr ''alice''), (''permission_level'', PStr ''CAN_MANAGE'')]])])\<rparr>]"
proof -
  have t: "truthy demo_status"
    and i: "py_get demo_status ''object_id'' PNone = Inr (PInt 7)"
    and k: "py_get demo_status ''object_type'' PNone = Inr (PStr ''NOTEBOOK'')"
    by (simp_all add: demo_status_def)
  have e: "api_permissions (PStr ''https://adb-1.azuredatabricks.net'') (PStr ''NOTEBOOK'') (PInt 7)
      = Some [Fmt (PStr ''https://adb-1.azuredatabricks.net''),
              Lit ''/api/2.0/permissions/notebooks/'', Fmt (PInt 7)]"
    by (simp add: api_permissions_def)
  have m: "py_in ''databricks.com'' (PStr ''https://adb-1.azuredatabricks.net'') = Inr False"
    by simp
  have c1: "PStr ''cluster-9'' = PNone \<or> PStr ''cluster-9'' = PStr ''cluster-9''"
    and c2: "PStr [] = PNone \<or> PStr [] = PStr []"
    and c3: "PNone = PNone \<or> PNone = PStr []"
    by simp_all
  show ?thesis
    using grant_request_body [where w = demo_world and tr = "[]" and email = "PStr ''alice''"
          and permission_level = "PStr ''CAN_MANAGE''", OF demo_status_lookup t i k e m c1]
      grant_request_body [where w = demo_world and tr = "[]" and email = "PStr ''alice''"
          and permission_level = "PStr ''CAN_MANAGE''", OF demo_status_lookup t i k e m c2]
      grant_request_body [where w = demo_world and tr = "[]" and email = "PStr ''alice''"
          and permission_level = "PStr ''CAN_MANAGE''", OF demo_status_lookup t i k e m c3]
    by simp
qed

section \<open>The loop over the listed objects\<close>

lemma export_notebook_trace:
  "snd (export_notebook w u t p tr) = tr @ [Http (export_request u t p)]"
  by (simp add: export_notebook_def send_def
      split: outcome.splits body.splits option.splits sum.splits pyval.splits)

lemma sync_object_skips:
  assumes "py_item nb ''object_type'' = Inr t" and "t \<noteq> PStr ''NOTEBOOK''"
  shows "sync_object w sc tc sp cid nb tr = (Inr (), tr)"
  using assms by (simp add: sync_object_def thn_def lift_def ret_def)

lemma for_each_filter:
  assumes "\<And>x tr. x \<in> set xs \<Longrightarrow> \<not> keep x \<Longrightarrow> body x tr = (Inr (), tr)"
  shows "for_each body xs tr = for_each body (filter keep xs) tr"
  using assms
proof (induction xs arbitrary: tr)
  case Nil
  then show ?case by simp
next
  case (Cons x xs)
  show ?case
  proof (cases "keep x")
    case True
    then show ?thesis using Cons by (auto split: prod.splits sum.splits)
  next
    case False
    then have "body x tr = (Inr (), tr)" using Cons.prems by simp
    then show ?thesis using False Cons by simp
  qed
qed

text \<open>
  C9: an object whose \<^verbatim>\<open>object_type\<close> is anything but \<^verbatim>\<open>"NOTEBOOK"\<close> (a directory,
  say) is passed over with no event at all: no export, no import, no listing of its
  children. So a loop over objects that all carry a type does exactly what the loop over
  the notebooks among them does.
\<close>

theorem only_notebooks_are_synced:
  "(\<forall>t. py_item nb ''object_type'' = Inr t \<and> t \<noteq> PStr ''NOTEBOOK'' \<longrightarrow>
      sync_object w sc tc sp cid nb tr = (Inr (), tr)) \<and>
   ((\<forall>x \<in> set objects. \<exists>t. py_item x ''object_type'' = Inr t) \<longrightarrow>
      for_each (sync_object w sc tc sp cid) objects tr
        = for_each (sync_object w sc tc sp cid) (filter is_notebook objects) tr)"
proof (intro conjI allI impI)
  fix t assume "py_item nb ''object_type'' = Inr t \<and> t \<noteq> PStr ''NOTEBOOK''"
  then show "sync_object w sc tc sp cid nb tr = (Inr (), tr)"
    using sync_object_skips by blast
next
  assume a: "\<forall>x \<in> set objects. \<exists>t. py_item x ''object_type'' = Inr t"
  show "for_each (sync_object w sc tc sp cid) objects tr
        = for_each (sync_object w sc tc sp cid) (filter is_notebook objects) tr"
  proof (rule for_each_filter)
    fix x tr' assume "x \<in> set objects" "\<not> is_notebook x"
    with a obtain t where "py_item x ''object_type'' = Inr t" "t \<noteq> PStr ''NOTEBOOK''"
      by (auto simp: is_notebook_def)
    then show "sync_object w sc tc sp cid x tr' = (Inr (), tr')"
      by (rule sync_object_skips)
  qed
qed


theorem only_notebooks_are_synced_witness:
  "sync_object demo_world demo_source demo_target (Some [(PStr ''alice'', PStr ''CAN_MANAGE'')])
      (PStr []) demo_dir [] = (Inr (), []) \<and>
   for_each (sync_object demo_world demo_source demo_target
        (Some [(PStr ''alice'', PStr ''CAN_MANAGE'')]) (PStr [])) [demo_nb_a, demo_dir, demo_nb_b] []
     = for_each (sync_object demo_world demo_source demo_target
        (Some [(PStr ''alice'', PStr ''CAN_MANAGE'')]) (PStr [])) [demo_nb_a, demo_nb_b] []"
proof -
  have d: "py_item demo_dir ''object_type'' = Inr (PStr ''DIRECTORY'') \<and>
           PStr ''DIRECTORY'' \<noteq> PStr ''NOTEBOOK''"
    by (simp add: demo_dir_def)
  have a: "\<forall>x \<in> set [demo_nb_a, demo_dir, demo_nb_b]. \<exists>t. py_item x ''object_type'' = Inr t"
    by (simp add: demo_nb_a_def demo_dir_def demo_nb_b_def)
  have f: "filter is_notebook [demo_nb_a, demo_dir, demo_nb_b] = [demo_nb_a, demo_nb_b]"
    by (simp add: is_notebook_def demo_nb_a_def demo_dir_def demo_nb_b_def)
  show ?thesis
    using only_notebooks_are_synced [where nb = demo_dir and w = demo_world
        and sc = demo_source and tc = demo_target
        and sp = "Some [(PStr ''alice'', PStr ''CAN_MANAGE'')]" and cid = "PStr []"
        and tr = "[]" and objects = "[demo_nb_a, demo_dir, demo_nb_b]"] d a
    unfolding f by blast
qed

subsection \<open>What a computation adds to the trace\<close>

lemma emitsI: "(\<And>tr. \<exists>new. snd (m tr) = tr @ new \<and> list_all Q new) \<Longrightarrow> emits Q m"
  by (simp add: emits_def)

lemma emitsD: "emits Q m \<Longrightarrow> \<exists>new. snd (m tr) = tr @ new \<and> list_all Q new"
  by (simp add: emits_def)

lemma emits_ret: "emits Q (ret x)"
  by (simp add: emits_def ret_def)

lemma emits_lift: "emits Q (lift r)"
  by (simp add: emits_def lift_def)

lemma emits_thn:
  assumes m: "emits Q m" and f: "\<And>x tr tr'. m tr = (Inr x, tr') \<Longrightarrow> emits Q (f x)"
  shows "emits Q (thn m f)"
proof (rule emitsI)
  fix tr
  obtain r tr1 where r: "m tr = (r, tr1)" by (cases "m tr")
  from emitsD [OF m, of tr] r obtain n1 where n1: "tr1 = tr @ n1" "list_all Q n1" by auto
  show "\<exists>new. snd (thn m f tr) = tr @ new \<and> list_all Q new"
  proof (cases r)
    case (Inl e)
    with r n1 show ?thesis by (auto simp: thn_def)
  next
    case (Inr x)
    from emitsD [OF f, of tr x tr1 tr1] r Inr
    obtain n2 where "snd (f x tr1) = tr1 @ n2" "list_all Q n2" by auto
    with r Inr n1 have "snd (thn m f tr) = tr @ (n1 @ n2) \<and> list_all Q (n1 @ n2)"
      by (simp add: thn_def)
    then show ?thesis by blast
  qed
qed

lemma emits_for_each:
  assumes "\<And>x. x \<in> set xs \<Longrightarrow> emits Q (body x)"
  shows "emits Q (for_each body xs)"
  using assms
proof (induction xs)
  case Nil
  show ?case by (simp add: emits_def)
next
  case (Cons x xs)
  have b: "emits Q (body x)" and rest: "emits Q (for_each body xs)"
    using Cons by simp_all
  show ?case
  proof (rule emitsI)
    fix tr
    obtain r tr1 where r: "body x tr = (r, tr1)" by (cases "body x tr")
    from emitsD [OF b, of tr] r obtain n1 where n1: "tr1 = tr @ n1" "list_all Q n1" by auto
    show "\<exists>new. snd (for_each body (x # xs) tr) = tr @ new \<and> list_all Q new"
    proof (cases r)
      case (Inl e)
      with r n1 show ?thesis by auto
    next
      case (Inr u)
      from emitsD [OF rest, of tr1]
      obtain n2 where "snd (for_each body xs tr1) = tr1 @ n2" "list_all Q n2" by auto
      with r Inr n1 have "snd (for_each body (x # xs) tr) = tr @ (n1 @ n2) \<and> list_all Q (n1 @ n2)"
        by simp
      then show ?thesis by blast
    qed
  qed
qed

lemma emits_if:
  "(c \<Longrightarrow> emits Q a) \<Longrightarrow> (\<not> c \<Longrightarrow> emits Q b) \<Longrightarrow> emits Q (if c then a else b)"
  by simp

lemma emits_option:
  "(opt = None \<Longrightarrow> emits Q a) \<Longrightarrow> (\<And>x. opt = Some x \<Longrightarrow> emits Q (b x))
   \<Longrightarrow> emits Q (case opt of None \<Rightarrow> a | Some x \<Rightarrow> b x)"
  by (cases opt) simp_all

lemma emits_send:
  assumes "Q (Http rq)" and "\<And>r tr'. snd (k r tr') = tr'"
  shows "emits Q (\<lambda>tr. case send w rq tr of (r, tr') \<Rightarrow> k r tr')"
  using assms by (simp add: emits_def send_def)

lemma emits_get_object_status:
  "Q (Http (status_request u t p)) \<Longrightarrow> emits Q (get_object_status w u t p)"
  by (rule emitsI) (simp add: get_object_status_def send_def split: outcome.splits body.splits)

lemma emits_export_notebook:
  "Q (Http (export_request u t p)) \<Longrightarrow> emits Q (export_notebook w u t p)"
  by (rule emitsI) (simp add: export_notebook_trace)

lemma emits_import_notebook:
  "Q (Http (import_request w u t c p l)) \<Longrightarrow> emits Q (import_notebook w u t c p l)"
  by (rule emitsI) (simp add: import_notebook_def send_def split: outcome.splits)

lemma emits_grant_permissions:
  assumes "\<And>rq. meth rq \<noteq> POST \<Longrightarrow> Q (Http rq)"
  shows "emits Q (grant_permissions w u t p email lvl cid)"
  unfolding grant_permissions_def
  by (intro emits_thn emits_get_object_status emits_lift emits_if emits_ret emits_option
      emits_send assms)
    (simp_all add: status_request_def split: reply.splits)

lemma emits_grant_all:
  assumes "\<And>rq. meth rq \<noteq> POST \<Longrightarrow> Q (Http rq)"
  shows "emits Q (grant_all w tc p sp cid)"
  unfolding grant_all_def
  by (intro emits_option emits_ret emits_for_each)
    (auto intro!: emits_thn emits_ret emits_grant_permissions assms)

lemma export_request_not_import:
  "export_request u t p \<noteq> import_request w u' t' c p' l"
  by (simp add: export_request_def import_request_def)

lemma meth_import_request: "meth (import_request w u t c p l) = POST"
  by (simp add: import_request_def)

lemma import_request_path:
  "import_request w u t c p l = import_request w u' t' c' p' l' \<Longrightarrow> p = p'"
  by (simp add: import_request_def)

lemma emits_sync_object:
  assumes never: "\<And>tr0. fst (export_notebook w (cfg_url sc) (cfg_token sc) path tr0) = Inr None"
  shows "emits (\<lambda>e. \<forall>content language.
            e \<noteq> Http (import_request w (cfg_url tc) (cfg_token tc) content path language))
          (sync_object w sc tc sp cid nb)"
  unfolding sync_object_def
proof (intro emits_thn emits_lift emits_if emits_ret emits_option emits_export_notebook
    emits_import_notebook emits_grant_all)
  fix x tr tr' xa tra tr'a xb trb tr'b xc
  assume "export_notebook w (cfg_url sc) (cfg_token sc) xa trb = (Inr xb, tr'b)" "xb = Some xc"
  then have "xa \<noteq> path" using never [of trb] by auto
  then show "\<forall>content language.
       Http (import_request w (cfg_url tc) (cfg_token tc) xc xa ''PYTHON'') \<noteq>
       Http (import_request w (cfg_url tc) (cfg_token tc) content path language)"
    by (auto dest: import_request_path)
qed (auto simp: export_request_not_import meth_import_request)

text \<open>
  C1: for a listed notebook whose export returns no content, the iteration issues the
  export request and nothing else (so no import for its path), ends normally, and the loop
  goes on with the next object from there. And when every export of that path returns no
  content, no import request for the path is issued anywhere in the loop.
\<close>

theorem export_failure_is_isolated:
  assumes "py_item nb ''object_type'' = Inr (PStr ''NOTEBOOK'')"
    and "py_item nb ''path'' = Inr path"
    and "fst (export_notebook w (cfg_url sc) (cfg_token sc) path tr) = Inr None"
  shows "sync_object w sc tc sp cid nb tr
           = (Inr (), tr @ [Http (export_request (cfg_url sc) (cfg_token sc) path)]) \<and>
         for_each (sync_object w sc tc sp cid) (nb # rest) tr
           = for_each (sync_object w sc tc sp cid) rest
               (tr @ [Http (export_request (cfg_url sc) (cfg_token sc) path)]) \<and>
         ((\<forall>tr0. fst (export_notebook w (cfg_url sc) (cfg_token sc) path tr0) = Inr None) \<longrightarrow>
          (\<forall>content language.
             Http (import_request w (cfg_url tc) (cfg_token tc) content path language)
               \<notin> set (drop (length tr)
                     (snd (for_each (sync_object w sc tc sp cid) (nb # rest) tr)))))"
proof -
  obtain r tr' where e: "export_notebook w (cfg_url sc) (cfg_token sc) path tr = (r, tr')"
    by (cases "export_notebook w (cfg_url sc) (cfg_token sc) path tr")
  with assms(3) have r: "r = Inr None" by simp
  from e export_notebook_trace [of w "cfg_url sc" "cfg_token sc" path tr]
  have tr': "tr' = tr @ [Http (export_request (cfg_url sc) (cfg_token sc) path)]" by simp
  have one: "sync_object w sc tc sp cid nb tr
           = (Inr (), tr @ [Http (export_request (cfg_url sc) (cfg_token sc) path)])"
    using assms(1,2) e r tr' by (simp add: sync_object_def thn_def lift_def ret_def)
  have two: "for_each (sync_object w sc tc sp cid) (nb # rest) tr
           = for_each (sync_object w sc tc sp cid) rest
               (tr @ [Http (export_request (cfg_url sc) (cfg_token sc) path)])"
    using one by simp
  have three: "\<forall>content language.
             Http (import_request w (cfg_url tc) (cfg_token tc) content path language)
               \<notin> set (drop (length tr)
                     (snd (for_each (sync_object w sc tc sp cid) (nb # rest) tr)))"
    if never: "\<forall>tr0. fst (export_notebook w (cfg_url sc) (cfg_token sc) path tr0) = Inr None"
  proof -
    have "emits (\<lambda>e. \<forall>content language.
            e \<noteq> Http (import_request w (cfg_url tc) (cfg_token tc) content path language))
          (for_each (sync_object w sc tc sp cid) (nb # rest))"
      by (rule emits_for_each) (rule emits_sync_object, simp add: never)
    from emitsD [OF this, of tr] obtain new
      where n: "snd (for_each (sync_object w sc tc sp cid) (nb # rest) tr) = tr @ new"
        and q: "list_all (\<lambda>e. \<forall>content language.
            e \<noteq> Http (import_request w (cfg_url tc) (cfg_token tc) content path language)) new"
      by blast
    show ?thesis unfolding n using q by (auto simp: list_all_iff)
  qed
  show ?thesis using one two three by blast
qed

subsection \<open>The example workspace\<close>


lemma demo_world_sel:
  "getenv demo_world = demo_env"
  "clone demo_world = (\<lambda>u d. CloneOk)"
  "respond demo_world = demo_respond (PDict [(''content'', PStr ''cHJpbnQoMik='')])"
  "b64decode_utf8 demo_world = map_of [(''cHJpbnQoMik='', ''print(2)'')]"
  "b64encode_utf8 demo_world = (\<lambda>s. if s = ''print(2)'' then ''cHJpbnQoMik='' else [])"
  by (simp_all add: demo_world_def)

lemma demo_export_a:
  "export_notebook demo_world (PStr u) t (PStr ''/Shared/a'') tr
     = (Inr None, tr @ [Http (export_request (PStr u) t (PStr ''/Shared/a''))])"
  by (simp add: export_notebook_def send_def export_request_def demo_world_sel demo_respond_def)

lemma demo_export_b:
  "export_notebook demo_world (PStr u) t (PStr ''/Shared/b'') tr
     = (Inr (Some ''print(2)''), tr @ [Http (export_request (PStr u) t (PStr ''/Shared/b''))])"
  by (simp add: export_notebook_def send_def export_request_def demo_world_sel demo_respond_def)

lemma demo_sync_b:
  "sync_object demo_world demo_source demo_target (Some [(PStr ''alice'', PStr ''CAN_MANAGE'')])
      (PStr []) demo_nb_b tr
   = (Inr (), tr @
       [Http (export_request (cfg_url demo_source) (cfg_token demo_source) (PStr ''/Shared/b'')),
        Http (import_request demo_world (cfg_url demo_target) (cfg_token demo_target)
                ''print(2)'' (PStr ''/Shared/b'') ''PYTHON''),
        Http (status_request (cfg_url demo_target) (cfg_token demo_target) (PStr ''/Shared/b'')),
        Http \<lparr>meth = PUT,
              url = [Fmt (cfg_url demo_target), Lit ''/api/2.0/permissions/notebooks/'', Fmt (PInt 7)],
              headers = get_headers (cfg_token demo_target), params = [],
              json_body = Some (grant_data (PStr ''alice'') (PStr ''CAN_MANAGE'') (PStr []))\<rparr>])"
  by (simp add: sync_object_def thn_def lift_def ret_def demo_nb_b_def demo_export_b
      import_notebook_def send_def grant_all_def grant_permissions_def demo_status_lookup
      demo_status_def api_permissions_def demo_target_def demo_source_def demo_world_sel
      demo_respond_def
      import_request_def)

theorem export_failure_is_isolated_witness:
  "sync_object demo_world demo_source demo_target (Some [(PStr ''alice'', PStr ''CAN_MANAGE'')])
      (PStr []) demo_nb_a []
     = (Inr (), [Http (export_request (cfg_url demo_source) (cfg_token demo_source)
                        (PStr ''/Shared/a''))]) \<and>
   for_each (sync_object demo_world demo_source demo_target
        (Some [(PStr ''alice'', PStr ''CAN_MANAGE'')]) (PStr [])) [demo_nb_a, demo_nb_b] []
     = (Inr (),
        [Http (export_request (cfg_url demo_source) (cfg_token demo_source) (PStr ''/Shared/a'')),
         Http (export_request (cfg_url demo_source) (cfg_token demo_source) (PStr ''/Shared/b'')),
         Http (import_request demo_world (cfg_url demo_target) (cfg_token demo_target)
                ''print(2)'' (PStr ''/Shared/b'') ''PYTHON''),
         Http (status_request (cfg_url demo_target) (cfg_token demo_target) (PStr ''/Shared/b'')),
         Http \<lparr>meth = PUT,
               url = [Fmt (cfg_url demo_target), Lit ''/api/2.0/permissions/notebooks/'',
                      Fmt (PInt 7)],
               headers = get_headers (cfg_token demo_target), params = [],
               json_body = Some (grant_data (PStr ''alice'') (PStr ''CAN_MANAGE'') (PStr []))\<rparr>]) \<and>
   (\<forall>content language.
      Http (import_request demo_world (cfg_url demo_target) (cfg_token demo_target) content
              (PStr ''/Shared/a'') language)
        \<notin> set (snd (for_each (sync_object demo_world demo_source demo_target
              (Some [(PStr ''alice'', PStr ''CAN_MANAGE'')]) (PStr [])) [demo_nb_a, demo_nb_b] [])))"
proof -
  have t: "py_item demo_nb_a ''object_type'' = Inr (PStr ''NOTEBOOK'')"
    and p: "py_item demo_nb_a ''path'' = Inr (PStr ''/Shared/a'')"
    by (simp_all add: demo_nb_a_def)
  have x: "fst (export_notebook demo_world (cfg_url demo_source) (cfg_token demo_source)
             (PStr ''/Shared/a'') tr) = Inr None" for tr
    by (simp add: demo_export_a demo_source_def)
  note w = export_failure_is_isolated [where w = demo_world and sc = demo_source
      and tc = demo_target and sp = "Some [(PStr ''alice'', PStr ''CAN_MANAGE'')]"
      and cid = "PStr []" and rest = "[demo_nb_b]", OF t p x]
  from w have one: "sync_object demo_world demo_source demo_target
      (Some [(PStr ''alice'', PStr ''CAN_MANAGE'')]) (PStr []) demo_nb_a []
     = (Inr (), [Http (export_request (cfg_url demo_source) (cfg_token demo_source)
                        (PStr ''/Shared/a''))])"
    by simp
  from w have "for_each (sync_object demo_world demo_source demo_target
        (Some [(PStr ''alice'', PStr ''CAN_MANAGE'')]) (PStr [])) [demo_nb_a, demo_nb_b] []
     = for_each (sync_object demo_world demo_source demo_target
        (Some [(PStr ''alice'', PStr ''CAN_MANAGE'')]) (PStr [])) [demo_nb_b]
        ([] @ [Http (export_request (cfg_url demo_source) (cfg_token demo_source)
                        (PStr ''/Shared/a''))])"
    by blast
  then have two: "for_each (sync_object demo_world demo_source demo_target
        (Some [(PStr ''alice'', PStr ''CAN_MANAGE'')]) (PStr [])) [demo_nb_a, demo_nb_b] []
     = (Inr (),
        [Http (export_request (cfg_url demo_source) (cfg_token demo_source) (PStr ''/Shared/a'')),
         Http (export_request (cfg_url demo_source) (cfg_token demo_source) (PStr ''/Shared/b'')),
         Http (import_request demo_world (cfg_url demo_target) (cfg_token demo_target)
                ''print(2)'' (PStr ''/Shared/b'') ''PYTHON''),
         Http (status_request (cfg_url demo_target) (cfg_token demo_target) (PStr ''/Shared/b'')),
         Http \<lparr>meth = PUT,
               url = [Fmt (cfg_url demo_target), Lit ''/api/2.0/permissions/notebooks/'',
                      Fmt (PInt 7)],
               headers = get_headers (cfg_token demo_target), params = [],
               json_body = Some (grant_data (PStr ''alice'') (PStr ''CAN_MANAGE'') (PStr []))\<rparr>])"
    by (simp add: demo_sync_b)
  from w x have three: "\<forall>content language.
      Http (import_request demo_world (cfg_url demo_target) (cfg_token demo_target) content
              (PStr ''/Shared/a'') language)
        \<notin> set (drop (length ([] :: event list))
              (snd (for_each (sync_object demo_world demo_source demo_target
              (Some [(PStr ''alice'', PStr ''CAN_MANAGE'')]) (PStr [])) [demo_nb_a, demo_nb_b] [])))"
    by blast
  show ?thesis using one two three by (simp only: list.size drop_0 simp_thms)
qed

section \<open>The permission mapper\<close>

lemma py_eq_refl [simp]: "py_eq k k"
  by (simp add: py_eq_def)

lemma py_eq_sym: "py_eq a b \<Longrightarrow> py_eq b a"
  by (simp add: py_eq_def)

lemma py_eq_trans: "py_eq a b \<Longrightarrow> py_eq b c \<Longrightarrow> py_eq a c"
  by (simp add: py_eq_def)

lemma py_eq_left: "py_eq a b \<Longrightarrow> py_eq a c = py_eq b c"
  by (simp add: py_eq_def)

lemma py_eq_PNone [simp]: "py_eq k PNone \<longleftrightarrow> k = PNone" "py_eq PNone k \<longleftrightarrow> k = PNone"
  by (cases k; auto simp: py_eq_def)+

lemma dict_get_dict_set:
  "dict_get (dict_set d k v) k' = (if py_eq k k' then Some v else dict_get d k')"
  by (induction d) (auto simp: py_eq_def)

lemma acl_item_level_ok:
  "acl_entry_ok item \<Longrightarrow> acl_item_level item = Inr (spec_level item)"
  by (auto simp: acl_entry_ok_def acl_item_level_def spec_level_def spec_field_or_unknown_def
      nested_ok_def split: pyval.splits option.splits list.splits)

lemma user_name_ok:
  "acl_entry_ok item \<Longrightarrow> py_get item ''user_name'' PNone = Inr (spec_principal item)"
  by (auto simp: acl_entry_ok_def spec_principal_def split: pyval.splits option.splits)

lemma acl_loop_ok:
  "list_all acl_entry_ok items \<Longrightarrow> acl_loop items d = Inr (fold acl_step items d)"
proof (induction items arbitrary: d)
  case Nil
  show ?case by simp
next
  case (Cons item items)
  then have ok: "acl_entry_ok item" and rest: "list_all acl_entry_ok items" by simp_all
  from ok have h: "hashable (spec_principal item)"
    by (auto simp: acl_entry_ok_def split: pyval.splits)
  show ?case
    using Cons.IH [OF rest] h by (simp add: user_name_ok [OF ok] acl_item_level_ok [OF ok] acl_step_def)
qed

lemma find_append_cases:
  "find P (xs @ ys) = (case find P xs of Some y \<Rightarrow> Some y | None \<Rightarrow> find P ys)"
  by (induction xs) auto

lemma find_snoc:
  "find P (xs @ [x]) = (case find P xs of Some y \<Rightarrow> Some y | None \<Rightarrow> if P x then Some x else None)"
  by (induction xs) auto

lemma dict_get_fold_step:
  "dict_get (fold acl_step items d) k =
     (case find (\<lambda>item. py_eq (spec_principal item) k) (rev items) of
        Some item \<Rightarrow> Some (spec_level item)
      | None \<Rightarrow> dict_get d k)"
proof (induction items arbitrary: d)
  case Nil
  show ?case by simp
next
  case (Cons item items)
  have "dict_get (fold acl_step (item # items) d) k =
     (case find (\<lambda>item. py_eq (spec_principal item) k) (rev items) of
        Some it \<Rightarrow> Some (spec_level it)
      | None \<Rightarrow> dict_get (acl_step item d) k)"
    by (simp only: fold_simps Cons.IH)
  also have "dict_get (acl_step item d) k =
     (if py_eq (spec_principal item) k then Some (spec_level item) else dict_get d k)"
    by (simp only: acl_step_def dict_get_dict_set)
  finally show ?case
    by (simp add: find_snoc split: option.splits)
qed



lemma map_permissions_acl:
  "map_of body ''access_control_list'' = Some (PList items)
   \<Longrightarrow> map_permissions (PDict body) = acl_loop items []"
  by (simp add: map_permissions_def)

lemma key_count_dict_set:
  "key_count (dict_set d k v) k' = (if py_eq k k' then max 1 (key_count d k') else key_count d k')"
  by (induction d) (auto simp: key_count_def py_eq_def)

lemma key_count_fold_step:
  "key_count d k \<le> 1 \<Longrightarrow> key_count (fold acl_step items d) k \<le> 1"
proof (induction items arbitrary: d)
  case Nil
  then show ?case by simp
next
  case (Cons item items)
  have "key_count (acl_step item d) k \<le> 1"
    using Cons.prems by (simp add: acl_step_def key_count_dict_set)
  from Cons.IH [OF this] show ?case by simp
qed

lemma levels_of_key:
  "key_count d k \<le> 1 \<Longrightarrow> dict_get d k = Some v
   \<Longrightarrow> map snd (filter (\<lambda>kv. py_eq (fst kv) k) d) = [v]"
proof (induction d)
  case Nil
  then show ?case by simp
next
  case (Cons kv d)
  show ?case
  proof (cases "py_eq (fst kv) k")
    case True
    with Cons.prems have "filter (\<lambda>kv. py_eq (fst kv) k) d = []" "snd kv = v"
      by (cases kv; simp add: key_count_def)+
    with True show ?thesis by simp
  next
    case False
    with Cons show ?thesis by (cases kv) (simp add: key_count_def)
  qed
qed

lemma dict_get_in_keys: "dict_get d k = Some v \<Longrightarrow> \<exists>k' \<in> set (map fst d). py_eq k' k"
  by (induction d) (auto split: if_splits)

text \<open>
  C2: for an access-control list whose entries have the shape above, the mapper returns
  a mapping, and the mapping is the one the specification words: a principal is the
  \<^verbatim>\<open>user_name\<close> of an entry, and its level is the \<^verbatim>\<open>permission_level\<close> of the first
  element of the entry's nested \<^verbatim>\<open>all_permissions\<close> array if the entry carries one, else
  the entry's top-level \<^verbatim>\<open>permission_level\<close>, else \<^verbatim>\<open>"UNKNOWN"\<close>.
\<close>

theorem permission_mapper_levels:
  assumes "map_of body ''access_control_list'' = Some (PList items)"
    and "list_all acl_entry_ok items"
  shows "\<exists>d. map_permissions (PDict body) = Inr d \<and>
             (\<forall>k. dict_get d k = spec_permissions items k)"
  using acl_loop_ok [OF assms(2), of "[]"] map_permissions_acl [OF assms(1)]
  by (auto simp: dict_get_fold_step spec_permissions_def split: option.splits)

text \<open>
  C6: when two entries of the list name the same principal and no entry after the second
  names it, the mapping holds for that principal the level derived from the second entry,
  and no other level.
\<close>

theorem last_entry_wins:
  assumes "list_all acl_entry_ok (xs @ e1 # ys @ e2 # zs)"
    and "py_eq (spec_principal e1) (spec_principal e2)"
    and "\<forall>z \<in> set zs. \<not> py_eq (spec_principal z) (spec_principal e2)"
  shows "\<exists>d level. acl_loop (xs @ e1 # ys @ e2 # zs) [] = Inr d \<and>
           acl_item_level e2 = Inr level \<and>
           dict_get d (spec_principal e2) = Some level \<and>
           map snd (filter (\<lambda>kv. py_eq (fst kv) (spec_principal e2)) d) = [level]"
proof -
  let ?items = "xs @ e1 # ys @ e2 # zs"
  let ?d = "fold acl_step ?items []"
  have loop: "acl_loop ?items [] = Inr ?d"
    by (rule acl_loop_ok [OF assms(1)])
  have ok2: "acl_entry_ok e2" using assms(1) by simp
  have lv: "acl_item_level e2 = Inr (spec_level e2)"
    by (rule acl_item_level_ok [OF ok2])
  have none: "find (\<lambda>item. py_eq (spec_principal item) (spec_principal e2)) (rev zs) = None"
    using assms(3) by (simp add: find_None_iff)
  have "rev ?items = rev zs @ e2 # rev ys @ e1 # rev xs" by simp
  then have f: "find (\<lambda>item. py_eq (spec_principal item) (spec_principal e2)) (rev ?items) = Some e2"
    using none by (simp add: find_append_cases)
  have get: "dict_get ?d (spec_principal e2) = Some (spec_level e2)"
    unfolding dict_get_fold_step f by simp
  have "key_count ?d (spec_principal e2) \<le> 1"
    by (rule key_count_fold_step) (simp add: key_count_def)
  then have only: "map snd (filter (\<lambda>kv. py_eq (fst kv) (spec_principal e2)) ?d) = [spec_level e2]"
    using get by (rule levels_of_key)
  show ?thesis
    by (rule exI [of _ ?d], rule exI [of _ "spec_level e2"]) (intro conjI loop lv get only)
qed


lemma map_of_without:
  "map_of (filter (\<lambda>kv. fst kv \<noteq> name) e) k = (if k = name then None else map_of e k)"
  by (induction e) auto

lemma empty_nested_level:
  assumes "map_of e ''all_permissions'' = Some (PList [])"
  shows "acl_item_level (PDict e) = Inr (spec_field_or_unknown e)"
    and "acl_item_level (without_field ''all_permissions'' (PDict e)) = Inr (spec_field_or_unknown e)"
  using assms
  by (simp_all add: acl_item_level_def without_field_def map_of_without spec_field_or_unknown_def)

text \<open>
  C10: an entry without \<^verbatim>\<open>user_name\<close> is not skipped: the loop writes its level under
  the key \<^verbatim>\<open>None\<close>, and the resulting mapping has that key. An entry whose
  \<^verbatim>\<open>all_permissions\<close> is the empty array gets the top-level \<^verbatim>\<open>permission_level\<close> (or
  \<^verbatim>\<open>"UNKNOWN"\<close>), exactly as the same entry without the \<^verbatim>\<open>all_permissions\<close> field.
\<close>

theorem missing_user_name_and_empty_nested:
  "(list_all acl_entry_ok items \<and> PDict e \<in> set items \<and> map_of e ''user_name'' = None \<longrightarrow>
      (\<exists>d level. acl_loop items [] = Inr d \<and> PNone \<in> set (map fst d) \<and>
         dict_get d PNone = Some level \<and> spec_permissions items PNone = Some level)) \<and>
   (map_of e ''user_name'' = None \<and> acl_item_level (PDict e) = Inr level' \<longrightarrow>
      acl_loop (PDict e # rest) d0 = acl_loop rest (dict_set d0 PNone level')) \<and>
   (map_of e ''all_permissions'' = Some (PList []) \<longrightarrow>
      acl_item_level (PDict e) = Inr (spec_field_or_unknown e) \<and>
      acl_item_level (PDict e) = acl_item_level (without_field ''all_permissions'' (PDict e)) \<and>
      acl_loop (PDict e # rest) d0 = acl_loop (without_field ''all_permissions'' (PDict e) # rest) d0)"
proof (intro conjI impI)
  assume a: "list_all acl_entry_ok items \<and> PDict e \<in> set items \<and> map_of e ''user_name'' = None"
  let ?d = "fold acl_step items []"
  have loop: "acl_loop items [] = Inr ?d" using a by (simp add: acl_loop_ok)
  have "spec_principal (PDict e) = PNone" using a by (simp add: spec_principal_def)
  then have "\<exists>x \<in> set (rev items). py_eq (spec_principal x) PNone" using a by auto
  then obtain it where f: "find (\<lambda>item. py_eq (spec_principal item) PNone) (rev items) = Some it"
    by (cases "find (\<lambda>item. py_eq (spec_principal item) PNone) (rev items)")
      (simp_all add: find_None_iff del: set_rev py_eq_PNone)
  have get: "dict_get ?d PNone = Some (spec_level it)"
    unfolding dict_get_fold_step f by simp
  have sp: "spec_permissions items PNone = Some (spec_level it)"
    unfolding spec_permissions_def f by simp
  from dict_get_in_keys [OF get] have key: "PNone \<in> set (map fst ?d)" by auto
  show "\<exists>d level. acl_loop items [] = Inr d \<and> PNone \<in> set (map fst d) \<and>
         dict_get d PNone = Some level \<and> spec_permissions items PNone = Some level"
    by (rule exI [of _ ?d], rule exI [of _ "spec_level it"]) (intro conjI loop key get sp)
next
  assume "map_of e ''user_name'' = None \<and> acl_item_level (PDict e) = Inr level'"
  then show "acl_loop (PDict e # rest) d0 = acl_loop rest (dict_set d0 PNone level')"
    by simp
next
  assume a: "map_of e ''all_permissions'' = Some (PList [])"
  show "acl_item_level (PDict e) = Inr (spec_field_or_unknown e)"
    by (rule empty_nested_level(1) [OF a])
  show "acl_item_level (PDict e) = acl_item_level (without_field ''all_permissions'' (PDict e))"
    by (simp only: empty_nested_level [OF a])
  show "acl_loop (PDict e # rest) d0 = acl_loop (without_field ''all_permissions'' (PDict e) # rest) d0"
    by (simp add: empty_nested_level [OF a] empty_nested_level(2) [OF a, unfolded without_field_def, simplified]
        without_field_def map_of_without)
qed


lemmas example_entries =
  alice_nested_def alice_flat_def bob_flat_def carol_bare_def nameless_def bob_empty_nested_def

lemmas spec_defs =
  spec_permissions_def spec_principal_def spec_level_def spec_field_or_unknown_def
  acl_entry_ok_def nested_ok_def py_eq_def

theorem permission_mapper_levels_witness:
  "\<exists>d. map_permissions (PDict [(''access_control_list'',
            PList [alice_nested, bob_flat, carol_bare])]) = Inr d \<and>
       dict_get d (PStr ''alice'') = Some (PStr ''CAN_MANAGE'') \<and>
       dict_get d (PStr ''bob'') = Some (PStr ''CAN_READ'') \<and>
       dict_get d (PStr ''carol'') = Some (PStr ''UNKNOWN'') \<and>
       dict_get d (PStr ''dave'') = None"
proof -
  have b: "map_of [(''access_control_list'', PList [alice_nested, bob_flat, carol_bare])]
      ''access_control_list'' = Some (PList [alice_nested, bob_flat, carol_bare])"
    by simp
  have ok: "list_all acl_entry_ok [alice_nested, bob_flat, carol_bare]"
    by (simp add: example_entries spec_defs)
  from permission_mapper_levels [OF b ok] obtain d
    where d: "map_permissions (PDict [(''access_control_list'',
            PList [alice_nested, bob_flat, carol_bare])]) = Inr d"
      and s: "\<And>k. dict_get d k = spec_permissions [alice_nested, bob_flat, carol_bare] k"
    by blast
  have "spec_permissions [alice_nested, bob_flat, carol_bare] (PStr ''alice'') = Some (PStr ''CAN_MANAGE'')"
    "spec_permissions [alice_nested, bob_flat, carol_bare] (PStr ''bob'') = Some (PStr ''CAN_READ'')"
    "spec_permissions [alice_nested, bob_flat, carol_bare] (PStr ''carol'') = Some (PStr ''UNKNOWN'')"
    "spec_permissions [alice_nested, bob_flat, carol_bare] (PStr ''dave'') = None"
    by (simp_all add: example_entries spec_defs)
  with d s show ?thesis by simp
qed

theorem last_entry_wins_witness:
  "\<exists>d. acl_loop [alice_flat, bob_flat, alice_nested, carol_bare] [] = Inr d \<and>
       acl_item_level alice_nested = Inr (PStr ''CAN_MANAGE'') \<and>
       dict_get d (PStr ''alice'') = Some (PStr ''CAN_MANAGE'') \<and>
       map snd (filter (\<lambda>kv. py_eq (fst kv) (PStr ''alice'')) d) = [PStr ''CAN_MANAGE'']"
proof -
  have ok: "list_all acl_entry_ok ([] @ alice_flat # [bob_flat] @ alice_nested # [carol_bare])"
    by (simp add: example_entries spec_defs)
  have same: "py_eq (spec_principal alice_flat) (spec_principal alice_nested)"
    by (simp add: example_entries spec_defs)
  have last: "\<forall>z \<in> set [carol_bare]. \<not> py_eq (spec_principal z) (spec_principal alice_nested)"
    by (simp add: example_entries spec_defs)
  have p: "spec_principal alice_nested = PStr ''alice''"
    by (simp add: example_entries spec_defs)
  have l: "acl_item_level alice_nested = Inr (PStr ''CAN_MANAGE'')"
    by (simp add: example_entries acl_item_level_def)
  from last_entry_wins [OF ok same last] show ?thesis
    unfolding p l by auto
qed

theorem missing_user_name_and_empty_nested_witness:
  "(\<exists>d. acl_loop [nameless, bob_flat] [] = Inr d \<and> PNone \<in> set (map fst d) \<and>
        dict_get d PNone = Some (PStr ''CAN_RUN'')) \<and>
   acl_loop [nameless, bob_flat] [] = acl_loop [bob_flat] [(PNone, PStr ''CAN_RUN'')] \<and>
   acl_item_level (PDict bob_empty_nested) = Inr (PStr ''CAN_EDIT'') \<and>
   acl_item_level (PDict bob_empty_nested)
     = acl_item_level (PDict [(''user_name'', PStr ''bob''), (''permission_level'', PStr ''CAN_EDIT'')]) \<and>
   acl_loop [PDict bob_empty_nested] []
     = acl_loop [PDict [(''user_name'', PStr ''bob''), (''permission_level'', PStr ''CAN_EDIT'')]] []"
proof -
  have ok: "list_all acl_entry_ok [nameless, bob_flat] \<and>
      PDict [(''permission_level'', PStr ''CAN_RUN'')] \<in> set [nameless, bob_flat] \<and>
      map_of [(''permission_level'', PStr ''CAN_RUN'')] ''user_name'' = None"
    by (simp add: example_entries spec_defs)
  have sp: "spec_permissions [nameless, bob_flat] PNone = Some (PStr ''CAN_RUN'')"
    by (simp add: example_entries spec_defs)
  have lv: "map_of [(''permission_level'', PStr ''CAN_RUN'')] ''user_name'' = None \<and>
      acl_item_level (PDict [(''permission_level'', PStr ''CAN_RUN'')]) = Inr (PStr ''CAN_RUN'')"
    by (simp add: acl_item_level_def)
  have em: "map_of bob_empty_nested ''all_permissions'' = Some (PList [])"
    by (simp add: example_entries)
  have wo: "without_field ''all_permissions'' (PDict bob_empty_nested)
      = PDict [(''user_name'', PStr ''bob''), (''permission_level'', PStr ''CAN_EDIT'')]"
    by (simp add: without_field_def example_entries)
  have fu: "spec_field_or_unknown bob_empty_nested = PStr ''CAN_EDIT''"
    by (simp add: example_entries spec_defs)
  note t = missing_user_name_and_empty_nested [where items = "[nameless, bob_flat]"
      and e = "[(''permission_level'', PStr ''CAN_RUN'')]" and level' = "PStr ''CAN_RUN''"
      and rest = "[bob_flat]" and ?d0.0 = "[]"]
    missing_user_name_and_empty_nested [where e = bob_empty_nested and rest = "[]"
      and ?d0.0 = "[]"]
  from t(1) ok sp have one: "\<exists>d. acl_loop [nameless, bob_flat] [] = Inr d \<and>
      PNone \<in> set (map fst d) \<and> dict_get d PNone = Some (PStr ''CAN_RUN'')"
    by auto
  from t(1) lv have two:
    "acl_loop [nameless, bob_flat] [] = acl_loop [bob_flat] [(PNone, PStr ''CAN_RUN'')]"
    by (simp add: nameless_def)
  from t(2) em have three: "acl_item_level (PDict bob_empty_nested) = Inr (PStr ''CAN_EDIT'') \<and>
   acl_item_level (PDict bob_empty_nested)
     = acl_item_level (PDict [(''user_name'', PStr ''bob''), (''permission_level'', PStr ''CAN_EDIT'')]) \<and>
   acl_loop [PDict bob_empty_nested] []
     = acl_loop [PDict [(''user_name'', PStr ''bob''), (''permission_level'', PStr ''CAN_EDIT'')]] []"
    unfolding wo fu by blast
  show ?thesis using one two three by blast
qed

section \<open>Failures that are absorbed, and responses that are not\<close>

subsection \<open>A response without the expected field, and a status that passes\<close>








lemma status_300 [simp]: "\<not> raises_for_status 300"
  by (simp add: raises_for_status_def)



subsection \<open>No request error leaves its operation\<close>





























subsection \<open>Failed requests\<close>













lemma status_403 [simp]: "raises_for_status 403"
  by (simp add: raises_for_status_def)


end
